theory Spec2Isabelle
  imports Complex_Main "HOL-Library.Char_ord" "HOL-Library.List_Lexorder" "HOL-Library.Log_Nat"
    "HOL-Library.Multiset"
begin

section \<open>JavaScript numbers\<close>

text \<open>
  A JavaScript number is an IEEE 754 double: a finite value, one of the two zeros, one of
  the two infinities, or \<open>NaN\<close>. \<open>Finite r\<close> is the double of value \<open>r\<close> (\<open>Finite 0\<close> is
  \<open>+0\<close>) and \<open>NegZero\<close> is \<open>-0\<close>. The arithmetic operators compute the exact result and
  round it to the nearest double, ties to even (\<open>fl\<close>); a result too large becomes an
  infinity and a result too small a zero of the sign of the exact result.
  JavaScript strings are \<open>string\<close>, compared lexicographically by character code as the
  operators \<open><\<close> and \<open>>\<close> of the source do. An optional property is an \<open>option\<close>.
  Clock readings (\<open>Date.now()\<close>: whole milliseconds, far below \<open>2 ^ 53\<close> in magnitude, so
  that \<open>Finite (of_int t)\<close> is the double of the reading \<open>t\<close>), the settings of the retry loop
  and HTTP status codes are \<open>int\<close>.
\<close>

datatype js_number = Finite real | NegZero | PosInfinity | NegInfinity | NaN

fun val :: "js_number \<Rightarrow> real" where
  "val (Finite r) = r"
| "val x = 0"

definition is_finite :: "js_number \<Rightarrow> bool" where
  "is_finite x = (x \<noteq> NaN \<and> x \<noteq> PosInfinity \<and> x \<noteq> NegInfinity)"

definition is_zero :: "js_number \<Rightarrow> bool" where
  "is_zero x = (x = Finite 0 \<or> x = NegZero)"

definition sign_bit :: "js_number \<Rightarrow> bool" where
  "sign_bit x = (case x of Finite r \<Rightarrow> r < 0 | NegZero \<Rightarrow> True | NegInfinity \<Rightarrow> True | _ \<Rightarrow> False)"

definition infinity :: "bool \<Rightarrow> js_number" where
  "infinity negative = (if negative then NegInfinity else PosInfinity)"

definition zero_of_sign :: "bool \<Rightarrow> js_number" where
  "zero_of_sign negative = (if negative then NegZero else Finite 0)"

text \<open>
  Rounding to the nearest double. \<open>exponent x\<close> is the binary exponent of \<open>x \<noteq> 0\<close>, with
  \<open>2 ^ exponent x \<le> \<bar>x\<bar> < 2 ^ (exponent x + 1)\<close>; a double has 53 significant bits, so that
  the doubles around \<open>x\<close> are the multiples of \<open>2 ^ (exponent x - 52)\<close>, and of \<open>2 ^ - 1074\<close>
  below the normal range. The largest double is just below \<open>2 ^ 1024\<close>.
\<close>

definition pow2 :: "int \<Rightarrow> real" where
  "pow2 e = (if 0 \<le> e then 2 ^ nat e else 1 / 2 ^ nat (- e))"

definition exponent :: "real \<Rightarrow> int" where
  "exponent x =
     (if 1 \<le> \<bar>x\<bar> then bitlen \<lfloor>\<bar>x\<bar>\<rfloor> - 1 else - bitlen (\<lceil>1 / \<bar>x\<bar>\<rceil> - 1))"

definition round_half_even :: "real \<Rightarrow> int" where
  "round_half_even q =
     (let f = \<lfloor>q\<rfloor>; d = q - of_int f
      in if d < 1 / 2 then f else if 1 / 2 < d then f + 1 else if even f then f else f + 1)"

definition nearest_double :: "real \<Rightarrow> real" where
  "nearest_double x =
     (if x = 0 then 0
      else let ulp = pow2 (max (exponent x) (- 1022) - 52)
           in of_int (round_half_even (x / ulp)) * ulp)"

definition fl :: "bool \<Rightarrow> real \<Rightarrow> js_number" where
  "fl negative x =
     (let y = nearest_double x
      in if y = 0 then zero_of_sign negative
         else if 1024 \<le> exponent y then infinity (y < 0)
         else Finite y)"

text \<open>The double nearest to a real number: the value of a numeric literal.\<close>

definition number :: "real \<Rightarrow> js_number" where
  "number x = fl (x < 0) x"

text \<open>
  The operators \<open>+\<close>, \<open>-\<close>, \<open>*\<close>, \<open>/\<close>, \<open><\<close> and \<open><=\<close> on numbers (\<open>a > b\<close> is \<open>b < a\<close> and
  \<open>a >= b\<close> is \<open>b <= a\<close>, as in JavaScript; every comparison with \<open>NaN\<close> is false). The
  difference \<open>x - y\<close> is the sum of \<open>x\<close> and the negation of \<open>y\<close>, as IEEE 754 has it; the
  reciprocal is there for the notation of the quotient only.
\<close>

definition rank :: "js_number \<Rightarrow> int" where
  "rank x = (if x = PosInfinity then 1 else if x = NegInfinity then - 1 else 0)"

instantiation js_number :: "{zero, one, plus, uminus, minus, times, inverse, ord}"
begin

definition zero_js_number :: js_number where
  "zero_js_number = Finite 0"

definition one_js_number :: js_number where
  "one_js_number = Finite 1"

definition uminus_js_number :: "js_number \<Rightarrow> js_number" where
  "uminus_js_number x =
     (case x of
        Finite r \<Rightarrow> if r = 0 then NegZero else Finite (- r)
      | NegZero \<Rightarrow> Finite 0
      | PosInfinity \<Rightarrow> NegInfinity
      | NegInfinity \<Rightarrow> PosInfinity
      | NaN \<Rightarrow> NaN)"

definition plus_js_number :: "js_number \<Rightarrow> js_number \<Rightarrow> js_number" where
  "plus_js_number x y =
     (if x = NaN \<or> y = NaN then NaN
      else if x = PosInfinity then (if y = NegInfinity then NaN else PosInfinity)
      else if x = NegInfinity then (if y = PosInfinity then NaN else NegInfinity)
      else if y = PosInfinity \<or> y = NegInfinity then y
      else if x = NegZero \<and> y = NegZero then NegZero
      else fl (val x + val y < 0) (val x + val y))"

definition minus_js_number :: "js_number \<Rightarrow> js_number \<Rightarrow> js_number" where
  "minus_js_number x y = x + (- y)"

definition times_js_number :: "js_number \<Rightarrow> js_number \<Rightarrow> js_number" where
  "times_js_number x y =
     (if x = NaN \<or> y = NaN then NaN
      else if \<not> is_finite x \<or> \<not> is_finite y then
        (if is_zero x \<or> is_zero y then NaN else infinity (sign_bit x \<noteq> sign_bit y))
      else fl (sign_bit x \<noteq> sign_bit y) (val x * val y))"

definition divide_js_number :: "js_number \<Rightarrow> js_number \<Rightarrow> js_number" where
  "divide_js_number x y =
     (if x = NaN \<or> y = NaN then NaN
      else if \<not> is_finite x then
        (if \<not> is_finite y then NaN else infinity (sign_bit x \<noteq> sign_bit y))
      else if \<not> is_finite y then zero_of_sign (sign_bit x \<noteq> sign_bit y)
      else if is_zero y then
        (if is_zero x then NaN else infinity (sign_bit x \<noteq> sign_bit y))
      else fl (sign_bit x \<noteq> sign_bit y) (val x / val y))"

definition inverse_js_number :: "js_number \<Rightarrow> js_number" where
  "inverse_js_number x = divide (Finite 1) x"

definition less_js_number :: "js_number \<Rightarrow> js_number \<Rightarrow> bool" where
  "less_js_number x y =
     (x \<noteq> NaN \<and> y \<noteq> NaN \<and> (rank x < rank y \<or> (rank x = 0 \<and> rank y = 0 \<and> val x < val y)))"

definition less_eq_js_number :: "js_number \<Rightarrow> js_number \<Rightarrow> bool" where
  "less_eq_js_number x y =
     (x \<noteq> NaN \<and> y \<noteq> NaN \<and> (rank x < rank y \<or> (rank x = rank y \<and> val x \<le> val y)))"

instance ..

end

text \<open>\<open>a === b\<close> and \<open>a !== b\<close> on numbers, \<open>Math.min(a, b)\<close> and \<open>Math.ceil(x)\<close>.\<close>

definition strict_equal :: "js_number \<Rightarrow> js_number \<Rightarrow> bool" where
  "strict_equal x y = (x \<noteq> NaN \<and> y \<noteq> NaN \<and> rank x = rank y \<and> val x = val y)"

definition Math_min :: "js_number \<Rightarrow> js_number \<Rightarrow> js_number" where
  "Math_min a b =
     (if a = NaN \<or> b = NaN then NaN
      else if a < b then a else if b < a then b
      else if a = NegZero then a else b)"

definition Math_ceil :: "js_number \<Rightarrow> js_number" where
  "Math_ceil x =
     (case x of
        Finite r \<Rightarrow> if - 1 < r \<and> r < 0 then NegZero else Finite (of_int \<lceil>r\<rceil>)
      | _ \<Rightarrow> x)"

text \<open>A number is falsy when it is a zero or \<open>NaN\<close>; \<open>x || 0\<close> on a number.\<close>

definition falsy :: "js_number \<Rightarrow> bool" where
  "falsy x = (x = Finite 0 \<or> x = NegZero \<or> x = NaN)"

definition or_0 :: "js_number \<Rightarrow> js_number" where
  "or_0 x = (if falsy x then 0 else x)"

section \<open>The request-execution engine (src/client/inflow.ts)\<close>

subsection \<open>RateLimiter\<close>

text \<open>
  The class as it runs, on doubles. \<open>now\<close> is the reading of \<open>Date.now()\<close> that the
  constructor or \<open>refill\<close> takes, a whole number of milliseconds.
\<close>

record js_RateLimiter =
  js_tokens :: js_number
  js_lastRefill :: int
  js_maxTokens :: js_number
  js_refillRate :: js_number

definition js_new_RateLimiter :: "js_number \<Rightarrow> int \<Rightarrow> js_RateLimiter" where
  "js_new_RateLimiter requestsPerMinute now =
     \<lparr>js_tokens = requestsPerMinute, js_lastRefill = now,
      js_maxTokens = requestsPerMinute, js_refillRate = requestsPerMinute / Finite 60000\<rparr>"

definition js_refill :: "js_RateLimiter \<Rightarrow> int \<Rightarrow> js_RateLimiter" where
  "js_refill L now =
     (let elapsed = Finite (of_int now) - Finite (of_int (js_lastRefill L))
      in L\<lparr>js_tokens := Math_min (js_maxTokens L) (js_tokens L + elapsed * js_refillRate L),
            js_lastRefill := now\<rparr>)"

definition js_waitTime :: "js_RateLimiter \<Rightarrow> js_number" where
  "js_waitTime L = Math_ceil ((1 - js_tokens L) / js_refillRate L)"

text \<open>
  \<open>acquire\<close> is an async function with one await, \<open>await this.sleep(waitTime)\<close>, reached
  only when a wait is needed. The code before the await runs without interruption
  (\<open>js_acquire_start\<close>, which also gives the time it asks to sleep); so does the code after
  it (\<open>js_acquire_resume\<close>). \<open>js_acquire\<close> is one call running alone: \<open>now\<close> is the clock at
  the call and \<open>woke\<close> the clock when the sleep returns.
\<close>

definition js_acquire_start :: "js_RateLimiter \<Rightarrow> int \<Rightarrow> js_RateLimiter \<times> js_number option" where
  "js_acquire_start L now =
     (let L1 = js_refill L now
      in if js_tokens L1 < 1 then (L1, Some (js_waitTime L1))
         else (L1\<lparr>js_tokens := js_tokens L1 - 1\<rparr>, None))"

definition js_acquire_resume :: "js_RateLimiter \<Rightarrow> int \<Rightarrow> js_RateLimiter" where
  "js_acquire_resume L now = (let L2 = js_refill L now in L2\<lparr>js_tokens := js_tokens L2 - 1\<rparr>)"

definition js_acquire :: "js_RateLimiter \<Rightarrow> int \<Rightarrow> int \<Rightarrow> js_RateLimiter" where
  "js_acquire L now woke =
     (case js_acquire_start L now of
        (L1, None) \<Rightarrow> L1
      | (L1, Some w) \<Rightarrow> js_acquire_resume L1 woke)"

text \<open>A sequence of calls, one after the other, each given as \<open>(now, woke)\<close>.\<close>

fun js_acquire_all :: "js_RateLimiter \<Rightarrow> (int \<times> int) list \<Rightarrow> js_RateLimiter" where
  "js_acquire_all L [] = L"
| "js_acquire_all L ((now, woke) # evs) = js_acquire_all (js_acquire L now woke) evs"

subsection \<open>RateLimiter in exact arithmetic\<close>

text \<open>
  The specification states the invariant of the token count under the assumption of exact
  arithmetic. For that property alone the class is read with the real numbers in place of
  the doubles: the same statements, with the sum, the product, the quotient, the minimum
  and the ceiling of the reals.
\<close>

record RateLimiter =
  tokens :: real
  lastRefill :: int
  maxTokens :: real
  refillRate :: real

text \<open>The constructor; \<open>now\<close> is the reading of \<open>Date.now()\<close> it takes.\<close>

definition new_RateLimiter :: "real \<Rightarrow> int \<Rightarrow> RateLimiter" where
  "new_RateLimiter requestsPerMinute now =
     \<lparr>tokens = requestsPerMinute, lastRefill = now,
      maxTokens = requestsPerMinute, refillRate = requestsPerMinute / 60000\<rparr>"

definition refill :: "RateLimiter \<Rightarrow> int \<Rightarrow> RateLimiter" where
  "refill L now =
     (let elapsed = now - lastRefill L
      in L\<lparr>tokens := min (maxTokens L) (tokens L + of_int elapsed * refillRate L),
            lastRefill := now\<rparr>)"

text \<open>
  \<open>Math.ceil((1 - tokens) / refillRate)\<close> is evaluated only where \<open>tokens < 1\<close>, so the
  numerator is positive and a zero rate gives \<open>Infinity\<close> in JavaScript (HOL's \<open>x / 0 = 0\<close>
  would hide that).
\<close>

datatype js_delay = Finite_ms int | Infinity_ms

definition waitTime :: "RateLimiter \<Rightarrow> js_delay" where
  "waitTime L =
     (if refillRate L = 0 then Infinity_ms
      else Finite_ms \<lceil>(1 - tokens L) / refillRate L\<rceil>)"

definition acquire_start :: "RateLimiter \<Rightarrow> int \<Rightarrow> RateLimiter \<times> js_delay option" where
  "acquire_start L now =
     (let L1 = refill L now
      in if tokens L1 < 1 then (L1, Some (waitTime L1))
         else (L1\<lparr>tokens := tokens L1 - 1\<rparr>, None))"

definition acquire_resume :: "RateLimiter \<Rightarrow> int \<Rightarrow> RateLimiter" where
  "acquire_resume L now = (let L2 = refill L now in L2\<lparr>tokens := tokens L2 - 1\<rparr>)"

definition acquire :: "RateLimiter \<Rightarrow> int \<Rightarrow> int \<Rightarrow> RateLimiter" where
  "acquire L now woke =
     (case acquire_start L now of
        (L1, None) \<Rightarrow> L1
      | (L1, Some w) \<Rightarrow> acquire_resume L1 woke)"

text \<open>The limiter from which \<open>acquire\<close> deducts its token: the state after its last refill.\<close>

definition before_deduct :: "RateLimiter \<Rightarrow> int \<Rightarrow> int \<Rightarrow> RateLimiter" where
  "before_deduct L now woke =
     (let L1 = refill L now in if tokens L1 < 1 then refill L1 woke else L1)"

text \<open>
  The assumptions on the environment of one call: the clock does not run backwards, and a
  sleep returns no earlier than asked (an infinite sleep never returns).
\<close>

definition clock_ok :: "RateLimiter \<Rightarrow> int \<Rightarrow> int \<Rightarrow> bool" where
  "clock_ok L now woke =
     (lastRefill L \<le> now \<and>
      (case snd (acquire_start L now) of
         None \<Rightarrow> True
       | Some Infinity_ms \<Rightarrow> False
       | Some (Finite_ms ms) \<Rightarrow> now + ms \<le> woke))"

text \<open>A sequence of calls, one after the other, each given as \<open>(now, woke)\<close>.\<close>

fun acquire_all :: "RateLimiter \<Rightarrow> (int \<times> int) list \<Rightarrow> RateLimiter" where
  "acquire_all L [] = L"
| "acquire_all L ((now, woke) # evs) = acquire_all (acquire L now woke) evs"

fun clocks_ok :: "RateLimiter \<Rightarrow> (int \<times> int) list \<Rightarrow> bool" where
  "clocks_ok L [] = True"
| "clocks_ok L ((now, woke) # evs) =
     (clock_ok L now woke \<and> clocks_ok (acquire L now woke) evs)"

subsection \<open>InflowClient.request\<close>

record InflowConfig =
  requestTimeoutMs :: int
  maxRetries :: int
  retryDelayMs :: int

text \<open>
  The messages of the errors are built from numbers and texts; they are kept structured
  instead of formatted.
\<close>

datatype error_message =
    ApiMessage string
  | HttpStatusLine int string
  | TimedOutAfter int
  | Text string

record ApiError =
  code :: string
  message :: string

datatype js_error =
    InflowApiError error_message int "ApiError option"
  | TypeError string
  | SyntaxError
  | Error string

fun error_name :: "js_error \<Rightarrow> string" where
  "error_name (InflowApiError m s a) = ''InflowApiError''"
| "error_name (TypeError m) = ''TypeError''"
| "error_name SyntaxError = ''SyntaxError''"
| "error_name (Error m) = ''Error''"

fun isRetryableError :: "js_error \<Rightarrow> bool" where
  "isRetryableError (InflowApiError m statusCode a) = (statusCode \<ge> 500 \<or> statusCode = 429)"
| "isRetryableError (TypeError m) = True"
| "isRetryableError e = False"

text \<open>
  What happens in one attempt, up to the answer of \<open>fetch\<close>. Building the request can fail
  before \<open>fetch\<close> is called: \<open>new URL\<close> throws a \<open>TypeError\<close> for a URL that is not valid,
  and so does \<open>JSON.stringify\<close> for a filter or a body that cannot be serialised
  (\<open>TypeErrorBeforeFetch\<close>). Otherwise \<open>fetch\<close> is called, and it resolves with a response,
  or rejects with an \<open>AbortError\<close> (the timeout fired) or with a \<open>TypeError\<close> (network
  failure, no response). A response carries its status, and what reading its body as JSON
  gives: \<open>error_json\<close> when it is read as an \<open>ApiError\<close> (\<open>None\<close> when that fails, in whatever
  way), and \<open>json\<close> when it is read as the result: a value, or a \<open>SyntaxError\<close> for a body
  that is not JSON, or the \<open>TypeError\<close> of a connection that fails while the body is read.
\<close>

datatype 'a body = Body 'a | NotJson | ReadFailed string

record 'a Response =
  status :: int
  statusText :: string
  error_json :: "ApiError option"
  json :: "'a body"

datatype 'a attempt =
    Resolved "'a Response"
  | AbortError
  | FetchTypeError string
  | TypeErrorBeforeFetch string

datatype 'a json_result = Json 'a | EmptyObject

definition ok :: "'a Response \<Rightarrow> bool" where
  "ok r = (200 \<le> status r \<and> status r \<le> 299)"

text \<open>
  \<open>executeRequest\<close>. It first takes a token from the rate limiter, which delays the call
  and does not fail; it then builds the URL, the headers and the body, calls \<open>fetch\<close> and
  reads the response. An exception thrown while the request is built leaves the function
  as it is; the rejection of \<open>fetch\<close> does so too, unless it is the \<open>AbortError\<close>.
\<close>

definition executeRequest :: "InflowConfig \<Rightarrow> 'a attempt \<Rightarrow> js_error + 'a json_result" where
  "executeRequest cfg out =
     (case out of
        TypeErrorBeforeFetch m \<Rightarrow> Inl (TypeError m)
      | AbortError \<Rightarrow> Inl (InflowApiError (TimedOutAfter (requestTimeoutMs cfg)) 408 None)
      | FetchTypeError m \<Rightarrow> Inl (TypeError m)
      | Resolved r \<Rightarrow>
          if \<not> ok r then
            Inl (InflowApiError
                   (case error_json r of
                      Some a \<Rightarrow> if message a \<noteq> [] then ApiMessage (message a)
                                else HttpStatusLine (status r) (statusText r)
                    | None \<Rightarrow> HttpStatusLine (status r) (statusText r))
                   (status r) (error_json r))
          else if status r = 204 then Inr EmptyObject
          else (case json r of
                  Body v \<Rightarrow> Inr (Json v)
                | NotJson \<Rightarrow> Inl SyntaxError
                | ReadFailed m \<Rightarrow> Inl (TypeError m)))"

text \<open>
  The retry loop of \<open>request\<close>. \<open>fetch n\<close> is what happens in the \<open>n\<close>-th attempt. The
  result is what \<open>request\<close> returns or throws, the number of attempts made, and the backoff
  delays slept, in order.
\<close>

function request_loop ::
  "InflowConfig \<Rightarrow> (nat \<Rightarrow> 'a attempt) \<Rightarrow> int \<Rightarrow> nat \<Rightarrow> int list
     \<Rightarrow> (js_error + 'a json_result) \<times> nat \<times> int list" where
  "request_loop cfg fetch attempt made delays =
     (if attempt \<le> maxRetries cfg then
        (case executeRequest cfg (fetch made) of
           Inr v \<Rightarrow> (Inr v, Suc made, delays)
         | Inl error \<Rightarrow>
             let isLastAttempt = (attempt = maxRetries cfg)
             in if isLastAttempt \<or> \<not> isRetryableError error then (Inl error, Suc made, delays)
                else let delayMs = retryDelayMs cfg * 2 ^ nat attempt
                     in request_loop cfg fetch (attempt + 1) (Suc made) (delays @ [delayMs]))
      else (Inl (Error ''Unexpected retry loop exit''), made, delays))"
  by pat_completeness auto
termination
  by (relation "measure (\<lambda>(cfg, fetch, attempt, made, delays). nat (maxRetries cfg + 1 - attempt))")
    auto

declare request_loop.simps [simp del]

definition request ::
  "InflowConfig \<Rightarrow> (nat \<Rightarrow> 'a attempt) \<Rightarrow> (js_error + 'a json_result) \<times> nat \<times> int list" where
  "request cfg fetch = request_loop cfg fetch 0 0 []"

section \<open>The purchase-order receive ledger (src/tools/purchase-orders.ts)\<close>

subsection \<open>Data\<close>

text \<open>
  What the handlers take from outside: the two built-ins that turn decimal texts into
  numbers and back (\<open>parseFloat\<close> and \<open>toFixed(4)\<close>), the \<open>n\<close>-th identity handed out by
  \<open>randomUUID()\<close>, and \<open>new Date().toISOString()\<close>. Texts are kept as UTF-8; the one
  character of the messages outside ASCII is the dash.
\<close>

record js_env =
  parseFloat :: "string \<Rightarrow> js_number"
  toFixed4 :: "js_number \<Rightarrow> string"
  randomUUID :: "nat \<Rightarrow> string"
  nowISOString :: string

definition em_dash :: string where
  "em_dash = [CHR 0xE2, CHR 0x80, CHR 0x94]"

datatype js_value = Number js_number | String string

record Quantity =
  standardQuantity :: "js_value option"
  uomQuantity :: "js_value option"
  uom :: "string option"
  serialNumbers :: "string list option"

datatype quantity = QNumber js_number | QString string | QObject Quantity

datatype PurchaseOrderStatus = Open | PartiallyReceived | Received | Cancelled | Closed

record PurchaseOrderItem =
  purchaseOrderLineId :: "string option"
  ol_productId :: "string option"
  ol_product_name :: "string option"
  ol_quantity :: quantity

record PurchaseOrderReceiveLine =
  purchaseOrderReceiveLineId :: "string option"
  rl_productId :: "string option"
  rl_description :: "string option"
  rl_vendorItemCode :: "string option"
  rl_quantity :: "quantity option"
  rl_locationId :: "string option"
  rl_sublocation :: "string option"
  receiveDate :: "string option"
  rl_timestamp :: "string option"

record PurchaseOrder =
  po_purchaseOrderId :: "string option"
  po_orderNumber :: "string option"
  po_vendorId :: "string option"
  po_locationId :: "string option"
  po_status :: "PurchaseOrderStatus option"
  po_lines :: "PurchaseOrderItem list option"
  po_receiveLines :: "PurchaseOrderReceiveLine list option"
  po_unstockLines :: "string list option"
  po_timestamp :: "string option"

text \<open>The body of the one write, \<open>client.put('/purchase-orders', putBody)\<close>.\<close>

record put_body =
  pb_purchaseOrderId :: "string option"
  pb_vendorId :: "string option"
  pb_receiveLines :: "PurchaseOrderReceiveLine list"
  pb_unstockLines :: "string list option"
  pb_timestamp :: "string option"

subsection \<open>JavaScript idioms\<close>

text \<open>A text is truthy when it is present and not empty; \<open>a || b\<close> on texts.\<close>

fun truthy :: "string option \<Rightarrow> bool" where
  "truthy None = False"
| "truthy (Some s) = (s \<noteq> [])"

definition or_else :: "string option \<Rightarrow> string option \<Rightarrow> string option" where
  "or_else a b = (if truthy a then a else b)"

definition or_empty :: "string option \<Rightarrow> string" where
  "or_empty a = (case a of Some s \<Rightarrow> s | None \<Rightarrow> [])"

text \<open>\<open>m.get(k) || 0\<close> on a map to numbers.\<close>

definition get_or_0 :: "(string \<rightharpoonup> js_number) \<Rightarrow> string \<Rightarrow> js_number" where
  "get_or_0 m k = (case m k of Some v \<Rightarrow> or_0 v | None \<Rightarrow> 0)"

text \<open>\<open>parseFloat(s) || 0\<close>.\<close>

definition parseFloat_or_0 :: "js_env \<Rightarrow> string \<Rightarrow> js_number" where
  "parseFloat_or_0 E s = or_0 (parseFloat E s)"

text \<open>A \<open>Set\<close> of texts, kept in insertion order.\<close>

definition set_add :: "string \<Rightarrow> string list \<Rightarrow> string list" where
  "set_add x xs = (if x \<in> set xs then xs else xs @ [x])"

text \<open>
  \<open>Array.prototype.sort(compareFn)\<close>: a stable sort that puts \<open>a\<close> before \<open>b\<close> when
  \<open>compareFn(a, b) \<le> 0\<close>.
\<close>

fun js_insort :: "('a \<Rightarrow> 'a \<Rightarrow> int) \<Rightarrow> 'a \<Rightarrow> 'a list \<Rightarrow> 'a list" where
  "js_insort cmp x [] = [x]"
| "js_insort cmp x (y # ys) = (if cmp x y \<le> 0 then x # y # ys else y # js_insort cmp x ys)"

definition js_sort :: "('a \<Rightarrow> 'a \<Rightarrow> int) \<Rightarrow> 'a list \<Rightarrow> 'a list" where
  "js_sort cmp xs = foldr (js_insort cmp) xs []"

subsection \<open>Helpers of the module\<close>

fun parseLineQuantity :: "js_env \<Rightarrow> quantity option \<Rightarrow> js_number" where
  "parseLineQuantity E None = 0"
| "parseLineQuantity E (Some (QNumber n)) = n"
| "parseLineQuantity E (Some (QString s)) = parseFloat_or_0 E s"
| "parseLineQuantity E (Some (QObject q)) =
     (let std = (case standardQuantity q of
                   Some v \<Rightarrow> v
                 | None \<Rightarrow> (case uomQuantity q of Some v \<Rightarrow> v | None \<Rightarrow> Number 0))
      in case std of String s \<Rightarrow> parseFloat_or_0 E s | Number n \<Rightarrow> n)"

definition stripReceiveLineToWritable :: "PurchaseOrderReceiveLine \<Rightarrow> PurchaseOrderReceiveLine" where
  "stripReceiveLineToWritable rl =
     \<lparr>purchaseOrderReceiveLineId = purchaseOrderReceiveLineId rl,
      rl_productId = rl_productId rl,
      rl_description = None,
      rl_vendorItemCode = None,
      rl_quantity = rl_quantity rl,
      rl_locationId = rl_locationId rl,
      rl_sublocation = rl_sublocation rl,
      receiveDate = receiveDate rl,
      rl_timestamp = rl_timestamp rl\<rparr>"

definition terminal_status :: "PurchaseOrderStatus option \<Rightarrow> bool" where
  "terminal_status s = (s = Some Cancelled \<or> s = Some Closed)"

subsection \<open>receive_purchase_order\<close>

record receive_item =
  ri_purchaseOrderLineId :: "string option"
  ri_productId :: "string option"
  ri_quantity :: js_number
  ri_serialNumbers :: "string list option"

record receive_args =
  ra_purchaseOrderId :: string
  ra_receiveAll :: "bool option"
  ra_items :: "receive_item list option"
  ra_locationId :: "string option"
  ra_receiveDate :: "string option"
  ra_allowOverReceive :: "bool option"

text \<open>
  The per-item messages pushed on \<open>errors\<close>, with the values they print.
  \<open>WouldOverReceive name total ordered already maxMore\<close> is the over-receive message.
\<close>

datatype receive_error =
    LineIdNotFound string
  | ProductNotFound string
  | ItemWithoutIdentity
  | CouldNotResolveProduct "string option"
  | WouldOverReceive string js_number js_number js_number js_number
  | SerialCountMismatch string nat js_number

record receive_summary_entry =
  rs_productId :: string
  rs_productName :: "string option"
  rs_quantity :: js_number
  rs_ordered :: js_number
  rs_previouslyReceived :: js_number
  rs_totalAfterReceive :: js_number
  rs_fullyReceived :: bool

text \<open>The variables that the handler updates item by item.\<close>

record receive_state =
  receivedByProduct :: "string \<rightharpoonup> js_number"
  errors :: "receive_error list"
  newReceiveLines :: "PurchaseOrderReceiveLine list"
  receiveSummary :: "receive_summary_entry list"

text \<open>Phase 3: the totals received per product, from the existing receive lines.\<close>

fun received_totals ::
  "js_env \<Rightarrow> PurchaseOrderReceiveLine list \<Rightarrow> (string \<rightharpoonup> js_number)
     \<Rightarrow> (string \<rightharpoonup> js_number)" where
  "received_totals E [] m = m"
| "received_totals E (rl # rls) m =
     (if \<not> truthy (rl_productId rl) then received_totals E rls m
      else let qty = parseLineQuantity E (rl_quantity rl);
               p = or_empty (rl_productId rl)
           in received_totals E rls (m(p \<mapsto> get_or_0 m p + qty)))"

text \<open>The lookup maps over the order lines (the source fills both in one loop).\<close>

fun build_lineMap ::
  "PurchaseOrderItem list \<Rightarrow> (string \<rightharpoonup> PurchaseOrderItem) \<Rightarrow> (string \<rightharpoonup> PurchaseOrderItem)" where
  "build_lineMap [] m = m"
| "build_lineMap (line # ls) m =
     (if truthy (purchaseOrderLineId line)
      then build_lineMap ls (m(or_empty (purchaseOrderLineId line) \<mapsto> line))
      else build_lineMap ls m)"

definition lines_or_nil :: "(string \<rightharpoonup> PurchaseOrderItem list) \<Rightarrow> string \<Rightarrow> PurchaseOrderItem list" where
  "lines_or_nil m p = (case m p of Some ls \<Rightarrow> ls | None \<Rightarrow> [])"

fun build_productLineMap ::
  "PurchaseOrderItem list \<Rightarrow> (string \<rightharpoonup> PurchaseOrderItem list)
     \<Rightarrow> (string \<rightharpoonup> PurchaseOrderItem list)" where
  "build_productLineMap [] m = m"
| "build_productLineMap (line # ls) m =
     (if truthy (ol_productId line)
      then let p = or_empty (ol_productId line); existing = lines_or_nil m p
           in build_productLineMap ls (m(p \<mapsto> existing @ [line]))
      else build_productLineMap ls m)"

definition new_receive_line ::
  "js_env \<Rightarrow> nat \<Rightarrow> string \<Rightarrow> js_number \<Rightarrow> string list option \<Rightarrow> string \<Rightarrow> string option
     \<Rightarrow> PurchaseOrderReceiveLine" where
  "new_receive_line E n productId qty serials receiveDate' locationId =
     \<lparr>purchaseOrderReceiveLineId = Some (randomUUID E n),
      rl_productId = Some productId,
      rl_description = None,
      rl_vendorItemCode = None,
      rl_quantity = Some (QObject
        \<lparr>standardQuantity = Some (String (toFixed4 E qty)),
         uomQuantity = Some (String (toFixed4 E qty)),
         uom = None,
         serialNumbers = (case serials of Some (x # xs) \<Rightarrow> Some (x # xs) | _ \<Rightarrow> None)\<rparr>),
      rl_locationId = (if truthy locationId then locationId else None),
      rl_sublocation = None,
      receiveDate = Some receiveDate',
      rl_timestamp = None\<rparr>"

text \<open>The \<open>receiveAll\<close> loop over the order lines.\<close>

fun receive_all_lines ::
  "js_env \<Rightarrow> string \<Rightarrow> string option \<Rightarrow> PurchaseOrderItem list \<Rightarrow> receive_state \<Rightarrow> receive_state" where
  "receive_all_lines E rdate loc [] st = st"
| "receive_all_lines E rdate loc (line # ls) st =
     (if \<not> truthy (ol_productId line) then receive_all_lines E rdate loc ls st
      else
        let p = or_empty (ol_productId line);
            ordered = parseLineQuantity E (Some (ol_quantity line));
            alreadyReceived = get_or_0 (receivedByProduct st) p;
            remaining = ordered - alreadyReceived
        in if remaining \<le> 0 then receive_all_lines E rdate loc ls st
           else receive_all_lines E rdate loc ls
                  (st\<lparr>newReceiveLines := newReceiveLines st @
                         [new_receive_line E (length (newReceiveLines st)) p remaining None rdate loc],
                      receiveSummary := receiveSummary st @
                         [\<lparr>rs_productId = p, rs_productName = ol_product_name line,
                           rs_quantity = remaining, rs_ordered = ordered,
                           rs_previouslyReceived = alreadyReceived,
                           rs_totalAfterReceive = ordered, rs_fullyReceived = True\<rparr>]\<rparr>))"

text \<open>
  One item of the explicit list. First the product is resolved, through the line identity
  or directly; \<open>Inl\<close> is the message pushed before \<open>continue\<close>.
\<close>

definition resolve_item ::
  "(string \<rightharpoonup> PurchaseOrderItem) \<Rightarrow> (string \<rightharpoonup> PurchaseOrderItem list) \<Rightarrow> receive_item
     \<Rightarrow> receive_error + (string option \<times> PurchaseOrderItem)" where
  "resolve_item lineMap productLineMap item =
     (if truthy (ri_purchaseOrderLineId item) then
        (case lineMap (or_empty (ri_purchaseOrderLineId item)) of
           None \<Rightarrow> Inl (LineIdNotFound (or_empty (ri_purchaseOrderLineId item)))
         | Some matchedLine \<Rightarrow> Inr (ol_productId matchedLine, matchedLine))
      else if truthy (ri_productId item) then
        (case lines_or_nil productLineMap (or_empty (ri_productId item)) of
           [] \<Rightarrow> Inl (ProductNotFound (or_empty (ri_productId item)))
         | matchedLine # candidates \<Rightarrow> Inr (ri_productId item, matchedLine))
      else Inl ItemWithoutIdentity)"

definition orderedForProduct ::
  "js_env \<Rightarrow> (string \<rightharpoonup> PurchaseOrderItem list) \<Rightarrow> string \<Rightarrow> js_number" where
  "orderedForProduct E productLineMap p =
     foldl (\<lambda>sum l. sum + parseLineQuantity E (Some (ol_quantity l))) 0
       (lines_or_nil productLineMap p)"

definition product_label :: "PurchaseOrderItem \<Rightarrow> string \<Rightarrow> string" where
  "product_label matchedLine p =
     (if truthy (ol_product_name matchedLine) then or_empty (ol_product_name matchedLine) else p)"

definition serials_mismatch :: "receive_item \<Rightarrow> bool" where
  "serials_mismatch item =
     (case ri_serialNumbers item of
        None \<Rightarrow> False
      | Some sn \<Rightarrow> length sn > 0 \<and> \<not> strict_equal (Finite (real (length sn))) (ri_quantity item))"

definition receive_item_step ::
  "js_env \<Rightarrow> (string \<rightharpoonup> PurchaseOrderItem) \<Rightarrow> (string \<rightharpoonup> PurchaseOrderItem list) \<Rightarrow> bool
     \<Rightarrow> string \<Rightarrow> string option \<Rightarrow> receive_state \<Rightarrow> receive_item \<Rightarrow> receive_state" where
  "receive_item_step E lineMap productLineMap allowOverReceive rdate loc st item =
     (case resolve_item lineMap productLineMap item of
        Inl err \<Rightarrow> st\<lparr>errors := errors st @ [err]\<rparr>
      | Inr (resolved, matchedLine) \<Rightarrow>
          if \<not> truthy resolved then
            st\<lparr>errors := errors st @ [CouldNotResolveProduct (ri_purchaseOrderLineId item)]\<rparr>
          else
            let resolvedProductId = or_empty resolved;
                alreadyReceived = get_or_0 (receivedByProduct st) resolvedProductId;
                ordered = orderedForProduct E productLineMap resolvedProductId
            in if \<not> allowOverReceive \<and> alreadyReceived + ri_quantity item > ordered then
                 st\<lparr>errors := errors st @
                      [WouldOverReceive (product_label matchedLine resolvedProductId)
                         (alreadyReceived + ri_quantity item) ordered alreadyReceived
                         (ordered - alreadyReceived)]\<rparr>
               else if serials_mismatch item then
                 st\<lparr>errors := errors st @
                      [SerialCountMismatch (product_label matchedLine resolvedProductId)
                         (length (case ri_serialNumbers item of Some sn \<Rightarrow> sn | None \<Rightarrow> []))
                         (ri_quantity item)]\<rparr>
               else
                 st\<lparr>newReceiveLines := newReceiveLines st @
                        [new_receive_line E (length (newReceiveLines st)) resolvedProductId
                           (ri_quantity item) (ri_serialNumbers item) rdate loc],
                     receivedByProduct := (receivedByProduct st)
                        (resolvedProductId \<mapsto> alreadyReceived + ri_quantity item),
                     receiveSummary := receiveSummary st @
                        [\<lparr>rs_productId = resolvedProductId,
                          rs_productName = ol_product_name matchedLine,
                          rs_quantity = ri_quantity item,
                          rs_ordered = ordered,
                          rs_previouslyReceived = alreadyReceived,
                          rs_totalAfterReceive = alreadyReceived + ri_quantity item,
                          rs_fullyReceived = (alreadyReceived + ri_quantity item \<ge> ordered)\<rparr>]\<rparr>)"

definition receive_items ::
  "js_env \<Rightarrow> (string \<rightharpoonup> PurchaseOrderItem) \<Rightarrow> (string \<rightharpoonup> PurchaseOrderItem list) \<Rightarrow> bool
     \<Rightarrow> string \<Rightarrow> string option \<Rightarrow> receive_item list \<Rightarrow> receive_state \<Rightarrow> receive_state" where
  "receive_items E lineMap productLineMap allowOverReceive rdate loc items st =
     foldl (receive_item_step E lineMap productLineMap allowOverReceive rdate loc) st items"

record received_report =
  rr_productName :: "string option"
  rr_quantityReceived :: js_number
  rr_ordered :: js_number
  rr_previouslyReceived :: js_number
  rr_totalReceived :: js_number
  rr_fullyReceived :: bool

record receive_summary =
  sm_purchaseOrderId :: "string option"
  sm_orderNumber :: "string option"
  sm_previousStatus :: "PurchaseOrderStatus option"
  sm_newStatus :: "PurchaseOrderStatus option"
  sm_received :: "received_report list"
  sm_totalReceiveLinesNow :: nat
  sm_warnings :: "receive_error list option"

text \<open>
  What the handler answers: \<open>{error: true, message}\<close> (with the list of messages for
  \<open>Validation failed\<close>), the summary, or the exception of the client that it lets through.
\<close>

datatype receive_response =
    ReceiveError string
  | CannotReceiveOnStatus "PurchaseOrderStatus option"
  | ReceiveValidationFailed "receive_error list"
  | ReceiveSummary receive_summary
  | ReceiveThrown js_error

text \<open>Phases 5 and 6: the one write and the summary.\<close>

definition receive_write ::
  "(put_body \<Rightarrow> js_error + PurchaseOrder) \<Rightarrow> PurchaseOrder \<Rightarrow> PurchaseOrderReceiveLine list
     \<Rightarrow> receive_state \<Rightarrow> receive_response \<times> put_body list" where
  "receive_write put currentPO existingReceiveLines st =
     (let strippedExisting = map stripReceiveLineToWritable existingReceiveLines;
          putBody = \<lparr>pb_purchaseOrderId = po_purchaseOrderId currentPO,
                     pb_vendorId = po_vendorId currentPO,
                     pb_receiveLines = strippedExisting @ newReceiveLines st,
                     pb_unstockLines = None,
                     pb_timestamp = po_timestamp currentPO\<rparr>
      in case put putBody of
           Inl e \<Rightarrow> (ReceiveThrown e, [putBody])
         | Inr result \<Rightarrow>
             (ReceiveSummary
                \<lparr>sm_purchaseOrderId = or_else (po_purchaseOrderId result) (po_purchaseOrderId currentPO),
                 sm_orderNumber = or_else (po_orderNumber result) (po_orderNumber currentPO),
                 sm_previousStatus = po_status currentPO,
                 sm_newStatus = po_status result,
                 sm_received = map (\<lambda>r.
                    \<lparr>rr_productName = rs_productName r,
                     rr_quantityReceived = rs_quantity r,
                     rr_ordered = rs_ordered r,
                     rr_previouslyReceived = rs_previouslyReceived r,
                     rr_totalReceived = rs_totalAfterReceive r,
                     rr_fullyReceived = rs_fullyReceived r\<rparr>) (receiveSummary st),
                 sm_totalReceiveLinesNow =
                    (case po_receiveLines result of
                       Some (x # xs) \<Rightarrow> length (x # xs)
                     | _ \<Rightarrow> length strippedExisting + length (newReceiveLines st)),
                 sm_warnings = (if length (errors st) > 0 then Some (errors st) else None)\<rparr>,
              [putBody]))"

text \<open>Phases 3 and 4 on a fetched order with lines: the state once every item is processed.\<close>

definition receive_build ::
  "js_env \<Rightarrow> receive_args \<Rightarrow> PurchaseOrder \<Rightarrow> PurchaseOrderItem list \<Rightarrow> receive_state" where
  "receive_build E args currentPO lines =
     (let existingReceiveLines = (case po_receiveLines currentPO of Some rls \<Rightarrow> rls | None \<Rightarrow> []);
          st0 = \<lparr>receivedByProduct = received_totals E existingReceiveLines Map.empty,
                 errors = [], newReceiveLines = [], receiveSummary = []\<rparr>;
          lineMap = build_lineMap lines Map.empty;
          productLineMap = build_productLineMap lines Map.empty;
          rdate = (if truthy (ra_receiveDate args) then or_empty (ra_receiveDate args)
                   else nowISOString E);
          loc = or_else (ra_locationId args) (po_locationId currentPO)
      in if ra_receiveAll args = Some True then receive_all_lines E rdate loc lines st0
         else receive_items E lineMap productLineMap (ra_allowOverReceive args = Some True)
                rdate loc (case ra_items args of Some its \<Rightarrow> its | None \<Rightarrow> []) st0)"

text \<open>
  The handler. \<open>got\<close> is what \<open>client.get\<close> gives for the order (an exception, nothing,
  or the order) and \<open>put\<close> what \<open>client.put\<close> gives for a body. The result is the answer
  and the bodies of the writes issued.
\<close>

definition receive_purchase_order ::
  "js_env \<Rightarrow> (js_error + PurchaseOrder option) \<Rightarrow> (put_body \<Rightarrow> js_error + PurchaseOrder)
     \<Rightarrow> receive_args \<Rightarrow> receive_response \<times> put_body list" where
  "receive_purchase_order E got put args =
     (let receiveAll = (ra_receiveAll args = Some True);
          has_items = (case ra_items args of Some (x # xs) \<Rightarrow> True | _ \<Rightarrow> False)
      in if receiveAll \<and> has_items then
           (ReceiveError (''Cannot use both receiveAll and items '' @ em_dash
                          @ '' they are mutually exclusive''), [])
         else if \<not> receiveAll \<and> \<not> has_items then
           (ReceiveError ''Provide either receiveAll=true or items array'', [])
         else
           (case got of
              Inl e \<Rightarrow> (ReceiveThrown e, [])
            | Inr None \<Rightarrow> (ReceiveError ''Purchase order not found or has no lines'', [])
            | Inr (Some currentPO) \<Rightarrow>
                (case po_lines currentPO of
                   None \<Rightarrow> (ReceiveError ''Purchase order not found or has no lines'', [])
                 | Some [] \<Rightarrow> (ReceiveError ''Purchase order not found or has no lines'', [])
                 | Some (l # ls) \<Rightarrow>
                     if terminal_status (po_status currentPO) then
                       (CannotReceiveOnStatus (po_status currentPO), [])
                     else
                       let st = receive_build E args currentPO (l # ls)
                       in if receiveAll \<and> length (newReceiveLines st) = 0 then
                            (ReceiveError ''All lines are already fully received'', [])
                          else if length (errors st) > 0 \<and> length (newReceiveLines st) = 0 then
                            (ReceiveValidationFailed (errors st), [])
                          else receive_write put currentPO
                                 (case po_receiveLines currentPO of Some rls \<Rightarrow> rls | None \<Rightarrow> [])
                                 st)))"

subsection \<open>unreceive_purchase_order\<close>

record unreceive_item =
  ui_productId :: string
  ui_quantity :: js_number

record unreceive_args =
  ua_purchaseOrderId :: string
  ua_receiveLineIds :: "string list option"
  ua_items :: "unreceive_item list option"
  ua_unreceiveAll :: "bool option"
  ua_dryRun :: "bool option"

text \<open>
  The messages pushed on \<open>errors\<close>. \<open>UnreceiveExceedsReceived label requested total\<close> is
  "requested unreceive of ... but only ... received".
\<close>

datatype unreceive_error =
    ReceiveLineIdNotFound string
  | NoReceiveLinesForProduct string
  | UnreceiveExceedsReceived string js_number js_number

record partial_mod =
  pm_id :: string
  pm_newQty :: js_number
  pm_oldQty :: js_number

record unreceive_state =
  removeSet :: "string list"
  partialMods :: "partial_mod list"
  unreceive_errors :: "unreceive_error list"

text \<open>
  Phase 1: \<open>[receiveLineIds, items, unreceiveAll].filter(Boolean).length\<close>. An array is
  truthy whenever it is given, also when it is empty; the flag is truthy when it is \<open>true\<close>.
\<close>

definition modes :: "unreceive_args \<Rightarrow> nat" where
  "modes args =
     length (filter (\<lambda>b. b)
       [ua_receiveLineIds args \<noteq> None, ua_items args \<noteq> None, ua_unreceiveAll args = Some True])"

fun build_receiveLineMap ::
  "PurchaseOrderReceiveLine list \<Rightarrow> (string \<rightharpoonup> PurchaseOrderReceiveLine)
     \<Rightarrow> (string \<rightharpoonup> PurchaseOrderReceiveLine)" where
  "build_receiveLineMap [] m = m"
| "build_receiveLineMap (rl # rls) m =
     (if truthy (purchaseOrderReceiveLineId rl)
      then build_receiveLineMap rls (m(or_empty (purchaseOrderReceiveLineId rl) \<mapsto> rl))
      else build_receiveLineMap rls m)"

fun build_productNameMap ::
  "PurchaseOrderItem list \<Rightarrow> (string \<rightharpoonup> string) \<Rightarrow> (string \<rightharpoonup> string)" where
  "build_productNameMap [] m = m"
| "build_productNameMap (line # ls) m =
     (if truthy (ol_productId line) \<and> truthy (ol_product_name line)
      then build_productNameMap ls
             (m(or_empty (ol_productId line) \<mapsto> or_empty (ol_product_name line)))
      else build_productNameMap ls m)"

text \<open>\<open>productNameMap.get(p) || p\<close>.\<close>

definition name_or_id :: "(string \<rightharpoonup> string) \<Rightarrow> string \<Rightarrow> string" where
  "name_or_id productNameMap p =
     (case productNameMap p of Some n \<Rightarrow> if n \<noteq> [] then n else p | None \<Rightarrow> p)"

text \<open>The comparator of the LIFO sort.\<close>

definition lifo_compare :: "PurchaseOrderReceiveLine \<Rightarrow> PurchaseOrderReceiveLine \<Rightarrow> int" where
  "lifo_compare a b =
     (let dateA = or_empty (receiveDate a); dateB = or_empty (receiveDate b)
      in if dateB > dateA then 1
         else if dateB < dateA then -1
         else
           let tsA = or_empty (rl_timestamp a); tsB = or_empty (rl_timestamp b)
           in if tsB > tsA then 1
              else if tsB < tsA then -1
              else
                let idA = or_empty (purchaseOrderReceiveLineId a);
                    idB = or_empty (purchaseOrderReceiveLineId b)
                in if idB > idA then 1
                   else if idB < idA then -1
                   else 0)"

text \<open>
  The consumption loop over the sorted lines, with its \<open>break\<close>. The identity of a line
  is read with \<open>!\<close> in the source: the lines were filtered on having one.
\<close>

fun lifo_walk ::
  "js_env \<Rightarrow> PurchaseOrderReceiveLine list \<Rightarrow> js_number \<Rightarrow> unreceive_state
     \<Rightarrow> unreceive_state" where
  "lifo_walk E [] remaining st = st"
| "lifo_walk E (rl # rest) remaining st =
     (if remaining \<le> 0 then st
      else
        let lineQty = parseLineQuantity E (rl_quantity rl);
            rlId = the (purchaseOrderReceiveLineId rl)
        in if lineQty \<le> remaining then
             lifo_walk E rest (remaining - lineQty)
               (st\<lparr>removeSet := set_add rlId (removeSet st)\<rparr>)
           else
             lifo_walk E rest 0
               (st\<lparr>partialMods := partialMods st @
                      [\<lparr>pm_id = rlId, pm_newQty = lineQty - remaining, pm_oldQty = lineQty\<rparr>]\<rparr>))"

definition productLines_of ::
  "PurchaseOrderReceiveLine list \<Rightarrow> string \<Rightarrow> PurchaseOrderReceiveLine list" where
  "productLines_of existingReceiveLines p =
     filter (\<lambda>rl. rl_productId rl = Some p \<and> truthy (purchaseOrderReceiveLineId rl))
       existingReceiveLines"

definition totalReceived :: "js_env \<Rightarrow> PurchaseOrderReceiveLine list \<Rightarrow> js_number" where
  "totalReceived E productLines =
     foldl (\<lambda>sum rl. sum + parseLineQuantity E (rl_quantity rl)) 0 productLines"

definition unreceive_item_step ::
  "js_env \<Rightarrow> PurchaseOrderReceiveLine list \<Rightarrow> (string \<rightharpoonup> string) \<Rightarrow> unreceive_state
     \<Rightarrow> unreceive_item \<Rightarrow> unreceive_state" where
  "unreceive_item_step E existingReceiveLines productNameMap st item =
     (let productLines = productLines_of existingReceiveLines (ui_productId item)
      in if length productLines = 0 then
           st\<lparr>unreceive_errors := unreceive_errors st @
                [NoReceiveLinesForProduct (name_or_id productNameMap (ui_productId item))]\<rparr>
         else if ui_quantity item > totalReceived E productLines then
           st\<lparr>unreceive_errors := unreceive_errors st @
                [UnreceiveExceedsReceived (name_or_id productNameMap (ui_productId item))
                   (ui_quantity item) (totalReceived E productLines)]\<rparr>
         else lifo_walk E (js_sort lifo_compare productLines) (ui_quantity item) st)"

text \<open>Phase 3: which lines to remove or reduce, by mode.\<close>

definition unreceive_select ::
  "js_env \<Rightarrow> unreceive_args \<Rightarrow> PurchaseOrderReceiveLine list
     \<Rightarrow> (string \<rightharpoonup> PurchaseOrderReceiveLine) \<Rightarrow> (string \<rightharpoonup> string) \<Rightarrow> unreceive_state" where
  "unreceive_select E args existingReceiveLines receiveLineMap productNameMap =
     (let st0 = \<lparr>removeSet = [], partialMods = [], unreceive_errors = []\<rparr>
      in if ua_unreceiveAll args = Some True then
           foldl (\<lambda>st rl. if truthy (purchaseOrderReceiveLineId rl)
                           then st\<lparr>removeSet :=
                                  set_add (or_empty (purchaseOrderReceiveLineId rl)) (removeSet st)\<rparr>
                           else st)
             st0 existingReceiveLines
         else
           (case ua_receiveLineIds args of
              Some receiveLineIds \<Rightarrow>
                foldl (\<lambda>st i. if receiveLineMap i = None
                              then st\<lparr>unreceive_errors := unreceive_errors st @ [ReceiveLineIdNotFound i]\<rparr>
                              else st\<lparr>removeSet := set_add i (removeSet st)\<rparr>)
                  st0 receiveLineIds
            | None \<Rightarrow>
                (case ua_items args of
                   Some items \<Rightarrow>
                     foldl (unreceive_item_step E existingReceiveLines productNameMap) st0 items
                 | None \<Rightarrow> st0)))"

record removed_entry =
  rm_receiveLineId :: string
  rm_productId :: string
  rm_productName :: "string option"
  rm_quantity :: js_number
  rm_receiveDate :: "string option"

record modified_entry =
  md_receiveLineId :: string
  md_productId :: string
  md_productName :: "string option"
  md_oldQty :: js_number
  md_newQty :: js_number

text \<open>
  Phase 4: the summaries. \<open>receiveLineMap.get(id)!\<close> is followed by a property read,
  which throws a \<open>TypeError\<close> if the identity were not in the map.
\<close>

fun build_removed ::
  "js_env \<Rightarrow> (string \<rightharpoonup> PurchaseOrderReceiveLine) \<Rightarrow> (string \<rightharpoonup> string) \<Rightarrow> string list
     \<Rightarrow> js_error + removed_entry list" where
  "build_removed E receiveLineMap productNameMap [] = Inr []"
| "build_removed E receiveLineMap productNameMap (rlId # ids) =
     (case receiveLineMap rlId of
        None \<Rightarrow> Inl (TypeError ''Cannot read properties of undefined'')
      | Some rl \<Rightarrow>
          (case build_removed E receiveLineMap productNameMap ids of
             Inl e \<Rightarrow> Inl e
           | Inr removed \<Rightarrow>
               Inr (\<lparr>rm_receiveLineId = rlId,
                     rm_productId = or_empty (rl_productId rl),
                     rm_productName = productNameMap (or_empty (rl_productId rl)),
                     rm_quantity = parseLineQuantity E (rl_quantity rl),
                     rm_receiveDate = receiveDate rl\<rparr> # removed)))"

fun build_modified ::
  "(string \<rightharpoonup> PurchaseOrderReceiveLine) \<Rightarrow> (string \<rightharpoonup> string) \<Rightarrow> partial_mod list
     \<Rightarrow> js_error + modified_entry list" where
  "build_modified receiveLineMap productNameMap [] = Inr []"
| "build_modified receiveLineMap productNameMap (pmod # mods) =
     (case receiveLineMap (pm_id pmod) of
        None \<Rightarrow> Inl (TypeError ''Cannot read properties of undefined'')
      | Some rl \<Rightarrow>
          (case build_modified receiveLineMap productNameMap mods of
             Inl e \<Rightarrow> Inl e
           | Inr modified \<Rightarrow>
               Inr (\<lparr>md_receiveLineId = pm_id pmod,
                     md_productId = or_empty (rl_productId rl),
                     md_productName = productNameMap (or_empty (rl_productId rl)),
                     md_oldQty = pm_oldQty pmod,
                     md_newQty = pm_newQty pmod\<rparr> # modified)))"

text \<open>Phase 5: the lines that stay, and the reduced quantities written into them.\<close>

fun set_quantity_first ::
  "string \<Rightarrow> quantity \<Rightarrow> PurchaseOrderReceiveLine list \<Rightarrow> PurchaseOrderReceiveLine list" where
  "set_quantity_first i q [] = []"
| "set_quantity_first i q (rl # rls) =
     (if purchaseOrderReceiveLineId rl = Some i then rl\<lparr>rl_quantity := Some q\<rparr> # rls
      else rl # set_quantity_first i q rls)"

definition apply_partial_mod ::
  "js_env \<Rightarrow> PurchaseOrderReceiveLine list \<Rightarrow> partial_mod \<Rightarrow> PurchaseOrderReceiveLine list" where
  "apply_partial_mod E remainingLines pmod =
     set_quantity_first (pm_id pmod)
       (QObject \<lparr>standardQuantity = Some (String (toFixed4 E (pm_newQty pmod))),
                 uomQuantity = Some (String (toFixed4 E (pm_newQty pmod))),
                 uom = None, serialNumbers = None\<rparr>)
       remainingLines"

definition remainingLines_of ::
  "js_env \<Rightarrow> PurchaseOrderReceiveLine list \<Rightarrow> unreceive_state \<Rightarrow> PurchaseOrderReceiveLine list" where
  "remainingLines_of E existingReceiveLines st =
     foldl (apply_partial_mod E)
       (map stripReceiveLineToWritable
          (filter (\<lambda>rl. or_empty (purchaseOrderReceiveLineId rl) \<notin> set (removeSet st))
             existingReceiveLines))
       (partialMods st)"

record dry_run_preview =
  dp_purchaseOrderId :: string
  dp_orderNumber :: "string option"
  dp_currentReceiveLines :: nat
  dp_wouldRemove :: "removed_entry list"
  dp_wouldModify :: "modified_entry list"
  dp_remainingReceiveLines :: int

record unreceive_summary =
  us_purchaseOrderId :: "string option"
  us_orderNumber :: "string option"
  us_previousStatus :: "PurchaseOrderStatus option"
  us_newStatus :: "PurchaseOrderStatus option"
  us_removed :: "removed_entry list"
  us_modified :: "modified_entry list"
  us_remainingReceiveLines :: nat

datatype unreceive_response =
    UnreceiveError string
  | CannotUnreceiveOnStatus "PurchaseOrderStatus option"
  | UnreceiveValidationFailed "unreceive_error list"
  | DryRunPreview dry_run_preview
  | UnreceiveSummary unreceive_summary
  | UnreceiveThrown js_error

text \<open>Phases 4 to 6, once the selection has passed validation.\<close>

definition unreceive_finish ::
  "js_env \<Rightarrow> (put_body \<Rightarrow> js_error + PurchaseOrder) \<Rightarrow> unreceive_args \<Rightarrow> PurchaseOrder
     \<Rightarrow> PurchaseOrderReceiveLine list \<Rightarrow> (string \<rightharpoonup> PurchaseOrderReceiveLine)
     \<Rightarrow> (string \<rightharpoonup> string) \<Rightarrow> unreceive_state \<Rightarrow> unreceive_response \<times> put_body list" where
  "unreceive_finish E put args currentPO existingReceiveLines receiveLineMap productNameMap st =
     (case build_removed E receiveLineMap productNameMap (removeSet st) of
        Inl e \<Rightarrow> (UnreceiveThrown e, [])
      | Inr removed \<Rightarrow>
          (case build_modified receiveLineMap productNameMap (partialMods st) of
             Inl e \<Rightarrow> (UnreceiveThrown e, [])
           | Inr modified \<Rightarrow>
               if ua_dryRun args = Some True then
                 (DryRunPreview
                    \<lparr>dp_purchaseOrderId = ua_purchaseOrderId args,
                     dp_orderNumber = po_orderNumber currentPO,
                     dp_currentReceiveLines = length existingReceiveLines,
                     dp_wouldRemove = removed,
                     dp_wouldModify = modified,
                     dp_remainingReceiveLines =
                       int (length existingReceiveLines) - int (length (removeSet st))\<rparr>,
                  [])
               else
                 let remainingLines = remainingLines_of E existingReceiveLines st;
                     putBody = \<lparr>pb_purchaseOrderId = po_purchaseOrderId currentPO,
                                pb_vendorId = po_vendorId currentPO,
                                pb_receiveLines = remainingLines,
                                pb_unstockLines =
                                  Some (case po_unstockLines currentPO of Some u \<Rightarrow> u | None \<Rightarrow> []),
                                pb_timestamp = po_timestamp currentPO\<rparr>
                 in (case put putBody of
                      Inl e \<Rightarrow> (UnreceiveThrown e, [putBody])
                    | Inr result \<Rightarrow>
                        (UnreceiveSummary
                           \<lparr>us_purchaseOrderId =
                              or_else (po_purchaseOrderId result) (po_purchaseOrderId currentPO),
                            us_orderNumber = or_else (po_orderNumber result) (po_orderNumber currentPO),
                            us_previousStatus = po_status currentPO,
                            us_newStatus = po_status result,
                            us_removed = removed,
                            us_modified = modified,
                            us_remainingReceiveLines =
                              (case po_receiveLines result of
                                 Some rls \<Rightarrow> length rls
                               | None \<Rightarrow> length remainingLines)\<rparr>,
                         [putBody]))))"

text \<open>
  The handler, with \<open>got\<close> and \<open>put\<close> as for the receive handler. The result is the
  answer and the bodies of the writes issued.
\<close>

definition unreceive_purchase_order ::
  "js_env \<Rightarrow> (js_error + PurchaseOrder option) \<Rightarrow> (put_body \<Rightarrow> js_error + PurchaseOrder)
     \<Rightarrow> unreceive_args \<Rightarrow> unreceive_response \<times> put_body list" where
  "unreceive_purchase_order E got put args =
     (if modes args = 0 then
        (UnreceiveError ''Provide exactly one of: receiveLineIds, items, or unreceiveAll'', [])
      else if modes args > 1 then
        (UnreceiveError (''Use only one of: receiveLineIds, items, or unreceiveAll '' @ em_dash
                         @ '' they are mutually exclusive''), [])
      else
        (case got of
           Inl e \<Rightarrow> (UnreceiveThrown e, [])
         | Inr None \<Rightarrow> (UnreceiveError ''Purchase order not found'', [])
         | Inr (Some currentPO) \<Rightarrow>
             if terminal_status (po_status currentPO) then
               (CannotUnreceiveOnStatus (po_status currentPO), [])
             else
               let existingReceiveLines =
                     (case po_receiveLines currentPO of Some rls \<Rightarrow> rls | None \<Rightarrow> [])
               in if length existingReceiveLines = 0 then
                    (UnreceiveError ''PO has no receive lines to unreceive'', [])
                  else
                    let receiveLineMap = build_receiveLineMap existingReceiveLines Map.empty;
                        productNameMap =
                          build_productNameMap
                            (case po_lines currentPO of Some ls \<Rightarrow> ls | None \<Rightarrow> []) Map.empty;
                        st = unreceive_select E args existingReceiveLines receiveLineMap
                               productNameMap
                    in if ua_unreceiveAll args \<noteq> Some True
                          \<and> length (unreceive_errors st) > 0 then
                         (UnreceiveValidationFailed (unreceive_errors st), [])
                       else unreceive_finish E put args currentPO existingReceiveLines
                              receiveLineMap productNameMap st))"

section \<open>Definitions for stating the properties\<close>

subsection \<open>The rate limiter\<close>

text \<open>
  The state of a limiter that admits at least one request per minute, was built by the
  constructor, and holds a token count within its range.
\<close>

definition limiter_inv :: "RateLimiter \<Rightarrow> bool" where
  "limiter_inv L = (1 \<le> maxTokens L \<and> refillRate L = maxTokens L / 60000
      \<and> 0 \<le> tokens L \<and> tokens L \<le> maxTokens L)"

subsection \<open>The retry policy in the words of the specification\<close>

text \<open>
  An attempt is to be retried when it ends with a response of status 500 or more or of
  status 429, or with no response received (whatever the reason).
\<close>

definition claimed_retryable :: "'a attempt \<Rightarrow> bool" where
  "claimed_retryable out =
     (case out of
        Resolved r \<Rightarrow> 500 \<le> status r \<or> status r = 429
      | AbortError \<Rightarrow> True
      | FetchTypeError m \<Rightarrow> True
      | TypeErrorBeforeFetch m \<Rightarrow> True)"

subsection \<open>The over-receive guard\<close>



subsection \<open>The LIFO reversal in the words of the specification\<close>

text \<open>An entry of the ledger as the walk sees it: its identity and its quantity.\<close>

definition entry_of :: "js_env \<Rightarrow> PurchaseOrderReceiveLine \<Rightarrow> string \<times> js_number" where
  "entry_of E rl = (the (purchaseOrderReceiveLineId rl), parseLineQuantity E (rl_quantity rl))"

text \<open>
  The order of the sort: \<open>a\<close> may stand before \<open>b\<close> when its receive date is later; on
  equal dates, when its version stamp is later; on equal stamps, when its identity is not
  smaller.
\<close>

definition lifo_order :: "PurchaseOrderReceiveLine \<Rightarrow> PurchaseOrderReceiveLine \<Rightarrow> bool" where
  "lifo_order a b =
     (or_empty (receiveDate a) > or_empty (receiveDate b)
      \<or> (or_empty (receiveDate a) = or_empty (receiveDate b)
          \<and> (or_empty (rl_timestamp a) > or_empty (rl_timestamp b)
              \<or> (or_empty (rl_timestamp a) = or_empty (rl_timestamp b)
                  \<and> or_empty (purchaseOrderReceiveLineId a)
                       \<ge> or_empty (purchaseOrderReceiveLineId b)))))"

text \<open>
  The walk as the specification words it, in the arithmetic of the program: an entry
  whose quantity is at most the remainder is removed whole and its quantity subtracted;
  the first other entry is reduced to \<open>quantity - remainder\<close>, and the walk stops. The
  result is the identities removed and the reduction \<open>(identity, old quantity, new
  quantity)\<close>, if any.
\<close>

fun claimed_walk ::
  "(string \<times> js_number) list \<Rightarrow> js_number \<Rightarrow> string list \<times> (string \<times> js_number \<times> js_number) option" where
  "claimed_walk [] remainder = ([], None)"
| "claimed_walk ((i, q) # entries) remainder =
     (if q \<le> remainder
      then (i # fst (claimed_walk entries (remainder - q)),
            snd (claimed_walk entries (remainder - q)))
      else ([], Some (i, q, q - remainder)))"

text \<open>The same walk, going on only while the remainder is positive.\<close>

fun positive_walk ::
  "(string \<times> js_number) list \<Rightarrow> js_number \<Rightarrow> string list \<times> (string \<times> js_number \<times> js_number) option" where
  "positive_walk [] remainder = ([], None)"
| "positive_walk ((i, q) # entries) remainder =
     (if remainder \<le> 0 then ([], None)
      else if q \<le> remainder
      then (i # fst (positive_walk entries (remainder - q)),
            snd (positive_walk entries (remainder - q)))
      else ([], Some (i, q, q - remainder)))"

text \<open>The state of the handler after it has recorded the result of a walk.\<close>

definition marked ::
  "unreceive_state \<Rightarrow> string list \<times> (string \<times> js_number \<times> js_number) option \<Rightarrow> unreceive_state" where
  "marked st w =
     st\<lparr>removeSet := foldl (\<lambda>s i. set_add i s) (removeSet st) (fst w),
        partialMods := partialMods st @
          (case snd w of
             None \<Rightarrow> []
           | Some (i, oldQty, newQty) \<Rightarrow> [\<lparr>pm_id = i, pm_newQty = newQty, pm_oldQty = oldQty\<rparr>])\<rparr>"

text \<open>
  Arithmetic without rounding. A difference is exact when both numbers are finite and the
  double computed is their difference; a walk is exact when every difference it computes
  is; the total received of a product is exact when its quantities are finite and the
  double computed is their sum.
\<close>

definition exact_difference :: "js_number \<Rightarrow> js_number \<Rightarrow> bool" where
  "exact_difference a b = (is_finite a \<and> is_finite b \<and> a - b = Finite (val a - val b))"

fun exact_walk :: "(string \<times> js_number) list \<Rightarrow> js_number \<Rightarrow> bool" where
  "exact_walk [] remainder = True"
| "exact_walk ((i, q) # entries) remainder =
     (if remainder \<le> 0 then True
      else if q \<le> remainder
      then exact_difference remainder q \<and> exact_walk entries (remainder - q)
      else exact_difference q remainder)"

definition exact_total :: "js_env \<Rightarrow> PurchaseOrderReceiveLine list \<Rightarrow> bool" where
  "exact_total E productLines =
     (list_all (\<lambda>rl. is_finite (parseLineQuantity E (rl_quantity rl))) productLines
      \<and> totalReceived E productLines =
          Finite (sum_list (map (\<lambda>rl. val (parseLineQuantity E (rl_quantity rl))) productLines)))"

text \<open>Every identity selected for removal or reduction is a key of the lookup map.\<close>

definition known :: "(string \<rightharpoonup> PurchaseOrderReceiveLine) \<Rightarrow> unreceive_state \<Rightarrow> bool" where
  "known M st = ((\<forall>i\<in>set (removeSet st). M i \<noteq> None)
                 \<and> (\<forall>m\<in>set (partialMods st). M (pm_id m) \<noteq> None))"

text \<open>A receive line with the fields that are written back, the others left out.\<close>

definition writable_fields :: "PurchaseOrderReceiveLine \<Rightarrow> PurchaseOrderReceiveLine" where
  "writable_fields rl =
     \<lparr>purchaseOrderReceiveLineId = purchaseOrderReceiveLineId rl,
      rl_productId = rl_productId rl,
      rl_description = None,
      rl_vendorItemCode = None,
      rl_quantity = rl_quantity rl,
      rl_locationId = rl_locationId rl,
      rl_sublocation = rl_sublocation rl,
      receiveDate = receiveDate rl,
      rl_timestamp = rl_timestamp rl\<rparr>"

subsection \<open>Concrete inputs\<close>

text \<open>The configuration and the responses of the client's own tests.\<close>

definition cfg_test :: InflowConfig where
  "cfg_test = \<lparr>requestTimeoutMs = 5000, maxRetries = 2, retryDelayMs = 100\<rparr>"

definition response_503 :: "string Response" where
  "response_503 = \<lparr>status = 503, statusText = ''Service Unavailable'',
      error_json = Some \<lparr>code = ''unavailable'', message = ''Service down''\<rparr>, json = NotJson\<rparr>"

definition response_400 :: "string Response" where
  "response_400 = \<lparr>status = 400, statusText = ''Bad Request'',
      error_json = Some \<lparr>code = ''invalid'', message = ''Invalid request''\<rparr>, json = NotJson\<rparr>"

text \<open>
  An environment for the ledger examples: the two conversions are given on the decimal
  texts and numbers that occur in them.
\<close>

definition example_env :: js_env where
  "example_env =
     \<lparr>parseFloat = (\<lambda>s. if s = ''3.0000'' then Finite 3
                        else if s = ''5.0000'' then Finite 5
                        else if s = ''8.0000'' then Finite 8
                        else if s = ''10.0000'' then Finite 10
                        else if s = ''0.1000'' then number (1 / 10)
                        else if s = ''0.2000'' then number (2 / 10)
                        else if s = ''0.3000'' then number (3 / 10)
                        else if s = ''48.6800'' then number (4868 / 100)
                        else if s = ''42.3253'' then number (423253 / 10000)
                        else if s = ''19.7000'' then number (197 / 10)
                        else if s = ''24.0633'' then number (240633 / 10000)
                        else NaN),
      toFixed4 = (\<lambda>x. if x = Finite 1 then ''1.0000''
                      else if x = Finite 2 then ''2.0000''
                      else if x = Finite 4 then ''4.0000''
                      else if x = Finite 5 then ''5.0000''
                      else ''0.0000''),
      randomUUID = (\<lambda>n. ''new-'' @ replicate n CHR ''i''),
      nowISOString = ''2024-03-01T00:00:00.000Z''\<rparr>"

definition decimal :: "string \<Rightarrow> quantity option" where
  "decimal s = Some (QObject \<lparr>standardQuantity = Some (String s), uomQuantity = Some (String s),
                              uom = None, serialNumbers = None\<rparr>)"

definition entry_t1 :: PurchaseOrderReceiveLine where
  "entry_t1 =
     \<lparr>purchaseOrderReceiveLineId = Some ''rl-1'', rl_productId = Some ''widget'',
      rl_description = None, rl_vendorItemCode = None, rl_quantity = decimal ''5.0000'',
      rl_locationId = None, rl_sublocation = None,
      receiveDate = Some ''2024-01-10T09:00:00Z'', rl_timestamp = Some ''0001''\<rparr>"

definition entry_t2 :: PurchaseOrderReceiveLine where
  "entry_t2 =
     \<lparr>purchaseOrderReceiveLineId = Some ''rl-2'', rl_productId = Some ''widget'',
      rl_description = None, rl_vendorItemCode = None, rl_quantity = decimal ''3.0000'',
      rl_locationId = None, rl_sublocation = None,
      receiveDate = Some ''2024-02-10T09:00:00Z'', rl_timestamp = Some ''0002''\<rparr>"

text \<open>An entry of the product \<open>widget\<close> with a decimal quantity, received on a day of May.\<close>

definition entry_on :: "string \<Rightarrow> string \<Rightarrow> string \<Rightarrow> PurchaseOrderReceiveLine" where
  "entry_on i day q =
     \<lparr>purchaseOrderReceiveLineId = Some i, rl_productId = Some ''widget'',
      rl_description = Some ''Widget'', rl_vendorItemCode = Some ''W-1'', rl_quantity = decimal q,
      rl_locationId = None, rl_sublocation = None,
      receiveDate = Some (''2024-05-'' @ day), rl_timestamp = Some ''0001''\<rparr>"

definition st0 :: unreceive_state where
  "st0 = \<lparr>removeSet = [], partialMods = [], unreceive_errors = []\<rparr>"

definition line_widget_10 :: PurchaseOrderItem where
  "line_widget_10 =
     \<lparr>purchaseOrderLineId = Some ''line-1'', ol_productId = Some ''widget'',
      ol_product_name = Some ''Widget'',
      ol_quantity = QObject \<lparr>standardQuantity = Some (Number (Finite 10)),
                             uomQuantity = Some (Number (Finite 10)),
                             uom = None, serialNumbers = None\<rparr>\<rparr>"

text \<open>An order for the quantity \<open>q\<close> of the product, of which \<open>r\<close> has been received.\<close>

definition order_of :: "js_number \<Rightarrow> js_number \<Rightarrow> PurchaseOrder" where
  "order_of q r =
     \<lparr>po_purchaseOrderId = Some ''po-2'', po_orderNumber = Some ''PO-0002'',
      po_vendorId = Some ''vendor-1'', po_locationId = None, po_status = Some Open,
      po_lines = Some [\<lparr>purchaseOrderLineId = Some ''line-1'', ol_productId = Some ''widget'',
                        ol_product_name = Some ''Widget'', ol_quantity = QNumber q\<rparr>],
      po_receiveLines =
        Some [\<lparr>purchaseOrderReceiveLineId = Some ''rl-0'', rl_productId = Some ''widget'',
               rl_description = None, rl_vendorItemCode = None, rl_quantity = Some (QNumber r),
               rl_locationId = None, rl_sublocation = None,
               receiveDate = Some ''2024-01-05T09:00:00Z'', rl_timestamp = Some ''0001''\<rparr>],
      po_unstockLines = None, po_timestamp = Some ''0007''\<rparr>"

definition received_8 :: PurchaseOrderReceiveLine where
  "received_8 =
     \<lparr>purchaseOrderReceiveLineId = Some ''rl-0'', rl_productId = Some ''widget'',
      rl_description = Some ''Widget'', rl_vendorItemCode = None, rl_quantity = decimal ''8.0000'',
      rl_locationId = None, rl_sublocation = None,
      receiveDate = Some ''2024-01-05T09:00:00Z'', rl_timestamp = Some ''0001''\<rparr>"

definition example_order :: "PurchaseOrderReceiveLine list \<Rightarrow> PurchaseOrder" where
  "example_order ledger =
     \<lparr>po_purchaseOrderId = Some ''po-1'', po_orderNumber = Some ''PO-0001'',
      po_vendorId = Some ''vendor-1'', po_locationId = None, po_status = Some Open,
      po_lines = Some [line_widget_10], po_receiveLines = Some ledger,
      po_unstockLines = None, po_timestamp = Some ''0007''\<rparr>"

definition put_ok :: "put_body \<Rightarrow> js_error + PurchaseOrder" where
  "put_ok body =
     Inr \<lparr>po_purchaseOrderId = pb_purchaseOrderId body, po_orderNumber = Some ''PO-0001'',
          po_vendorId = pb_vendorId body, po_locationId = None,
          po_status = Some PartiallyReceived, po_lines = None,
          po_receiveLines = Some (pb_receiveLines body),
          po_unstockLines = pb_unstockLines body, po_timestamp = Some ''0008''\<rparr>"

definition receive_widget :: "real \<Rightarrow> receive_item" where
  "receive_widget q =
     \<lparr>ri_purchaseOrderLineId = None, ri_productId = Some ''widget'', ri_quantity = number q,
      ri_serialNumbers = None\<rparr>"

definition receive_request :: "receive_item list \<Rightarrow> receive_args" where
  "receive_request its =
     \<lparr>ra_purchaseOrderId = ''po-1'', ra_receiveAll = None, ra_items = Some its,
      ra_locationId = None, ra_receiveDate = Some ''2024-03-01T09:00:00Z'',
      ra_allowOverReceive = None\<rparr>"

definition unreceive_request :: "unreceive_item list \<Rightarrow> bool option \<Rightarrow> unreceive_args" where
  "unreceive_request its dry =
     \<lparr>ua_purchaseOrderId = ''po-1'', ua_receiveLineIds = None, ua_items = Some its,
      ua_unreceiveAll = None, ua_dryRun = dry\<rparr>"

definition unreceive_ids :: "string list \<Rightarrow> unreceive_args" where
  "unreceive_ids ids =
     \<lparr>ua_purchaseOrderId = ''po-1'', ua_receiveLineIds = Some ids, ua_items = None,
      ua_unreceiveAll = None, ua_dryRun = None\<rparr>"

definition widget :: "real \<Rightarrow> unreceive_item" where
  "widget q = \<lparr>ui_productId = ''widget'', ui_quantity = number q\<rparr>"



section \<open>Properties of the numbers\<close>

text \<open>Whole numbers up to \<open>2 ^ 53\<close> are doubles, and their sums and differences are exact.\<close>

lemma round_half_even_int [simp]: "round_half_even (of_int m) = m"
  by (simp add: round_half_even_def)

lemma exponent_of_int:
  assumes "n \<noteq> 0"
  shows "exponent (of_int n) = bitlen \<bar>n\<bar> - 1"
proof -
  have "1 \<le> \<bar>n\<bar>" using assms by linarith
  then have "real_of_int 1 \<le> real_of_int \<bar>n\<bar>" by (simp only: of_int_le_iff)
  then have "1 \<le> \<bar>real_of_int n\<bar>" by simp
  moreover have "\<lfloor>\<bar>real_of_int n\<bar>\<rfloor> = \<bar>n\<bar>" by (metis floor_of_int of_int_abs)
  ultimately show ?thesis by (simp add: exponent_def)
qed

lemma nearest_double_of_int:
  assumes "\<bar>n\<bar> \<le> 2 ^ 53"
  shows "nearest_double (of_int n) = of_int n"
proof (cases "n = 0")
  case True
  then show ?thesis by (simp add: nearest_double_def)
next
  case False
  define e where "e = bitlen \<bar>n\<bar> - 1"
  have pos: "0 < \<bar>n\<bar>" using False by simp
  have b: "2 ^ nat e \<le> \<bar>n\<bar>" "\<bar>n\<bar> < 2 ^ nat (e + 1)"
    using bitlen_bounds [OF pos] by (simp_all add: e_def)
  have e0: "0 \<le> e" using pos by (simp add: e_def bitlen_alt_def)
  have "(2::int) ^ nat e \<le> 2 ^ 53" using b(1) assms by linarith
  then have "nat e \<le> 53" by (intro power_le_imp_le_exp [of "2::int"]) simp_all
  then have e53: "e \<le> 53" by linarith
  show ?thesis
  proof (cases "e \<le> 52")
    case True
    define k where "k = nat (52 - e)"
    have ulp: "pow2 (max e (- 1022) - 52) = 1 / 2 ^ k"
      using True e0 by (auto simp: pow2_def k_def max_def)
    have "real_of_int n / (1 / 2 ^ k) = of_int (n * 2 ^ k)" by simp
    then have "of_int (round_half_even (real_of_int n / (1 / 2 ^ k))) * (1 / 2 ^ k) = real_of_int n"
      by (simp only: round_half_even_int) simp
    then show ?thesis
      using False by (simp add: nearest_double_def exponent_of_int e_def [symmetric] ulp Let_def)
  next
    case False
    then have e: "e = 53" using e53 by linarith
    have "\<bar>n\<bar> = 2 ^ 53" using b(1) assms e by simp
    then have "n = 2 ^ 53 \<or> n = - (2 ^ 53)" by linarith
    then have ev: "n = 2 * (n div 2)" by auto
    have ulp: "pow2 (max e (- 1022) - 52) = 2" using e by (simp add: pow2_def)
    have "real_of_int n / 2 = of_int (n div 2)"
      using ev by (metis nonzero_mult_div_cancel_left of_int_mult of_int_numeral zero_neq_numeral)
    then have "of_int (round_half_even (real_of_int n / 2)) * 2 = real_of_int n"
      by simp
    then show ?thesis
      using \<open>n \<noteq> 0\<close> by (simp add: nearest_double_def exponent_of_int e_def [symmetric] ulp Let_def)
  qed
qed

lemma fl_of_int:
  assumes "\<bar>n\<bar> \<le> 2 ^ 53"
  shows "fl (n < 0) (of_int n) = Finite (of_int n)"
proof (cases "n = 0")
  case True
  then show ?thesis by (simp add: fl_def nearest_double_def zero_of_sign_def)
next
  case False
  have "\<bar>n\<bar> < 2 ^ 54" using assms by simp
  then have "bitlen \<bar>n\<bar> \<le> 54" by (simp add: bitlen_le_iff_power)
  then have "\<not> 1024 \<le> exponent (real_of_int n)" using False by (simp add: exponent_of_int)
  then show ?thesis using False assms by (simp add: fl_def nearest_double_of_int Let_def)
qed

lemma plus_whole:
  assumes "\<bar>a + b\<bar> \<le> 2 ^ 53"
  shows "Finite (of_int a) + Finite (of_int b) = Finite (of_int (a + b))"
  using fl_of_int [OF assms] by (simp add: plus_js_number_def flip: of_int_add)

lemma minus_whole:
  assumes "\<bar>a - b\<bar> \<le> 2 ^ 53"
  shows "Finite (of_int a) - Finite (of_int b) = Finite (of_int (a - b))"
proof (cases "b = 0")
  case True
  then show ?thesis using fl_of_int [of a] assms
    by (simp add: minus_js_number_def uminus_js_number_def plus_js_number_def)
next
  case False
  then show ?thesis using fl_of_int [OF assms]
    by (simp add: minus_js_number_def uminus_js_number_def plus_js_number_def flip: of_int_diff)
qed

text \<open>Comparisons of finite numbers are the comparisons of their values.\<close>

lemma le_finite: "is_finite a \<Longrightarrow> is_finite b \<Longrightarrow> a \<le> b \<longleftrightarrow> val a \<le> val b"
  by (auto simp: less_eq_js_number_def is_finite_def rank_def)

lemma less_finite: "is_finite a \<Longrightarrow> is_finite b \<Longrightarrow> a < b \<longleftrightarrow> val a < val b"
  by (auto simp: less_js_number_def is_finite_def rank_def)

lemma zero_le_zero [simp]: "(0::js_number) \<le> 0"
  by (simp add: less_eq_js_number_def zero_js_number_def rank_def)

lemma is_finite_simps [simp]:
  "is_finite (Finite r)" "is_finite NegZero" "is_finite 0"
  "\<not> is_finite NaN" "\<not> is_finite PosInfinity" "\<not> is_finite NegInfinity"
  by (simp_all add: is_finite_def zero_js_number_def)

lemma val_zero [simp]: "val 0 = 0"
  by (simp add: zero_js_number_def)

section \<open>Properties of the request-execution engine\<close>

subsection \<open>RateLimiter\<close>

lemma js_refill_fixed [simp]:
  "js_maxTokens (js_refill L now) = js_maxTokens L"
  "js_refillRate (js_refill L now) = js_refillRate L"
  "js_lastRefill (js_refill L now) = now"
  "js_tokens (js_refill L now) =
     Math_min (js_maxTokens L)
       (js_tokens L + (Finite (of_int now) - Finite (of_int (js_lastRefill L))) * js_refillRate L)"
  by (simp_all add: js_refill_def Let_def)

lemma js_acquire_fixed:
  "js_maxTokens (js_acquire L now woke) = js_maxTokens L"
  "js_refillRate (js_acquire L now woke) = js_refillRate L"
  by (simp_all add: js_acquire_def js_acquire_start_def js_acquire_resume_def Let_def)

lemma js_acquire_all_fixed:
  "js_maxTokens (js_acquire_all L evs) = js_maxTokens L
   \<and> js_refillRate (js_acquire_all L evs) = js_refillRate L"
  by (induction L evs rule: js_acquire_all.induct) (simp_all add: js_acquire_fixed)

lemma js_acquire_all_new:
  "js_maxTokens (js_acquire_all (js_new_RateLimiter rpm t0) evs) = rpm"
  "js_refillRate (js_acquire_all (js_new_RateLimiter rpm t0) evs) = rpm / Finite 60000"
  by (simp_all add: js_acquire_all_fixed js_new_RateLimiter_def)

text \<open>
  Claim C7. Every call of \<open>acquire\<close>, on a limiter built for \<open>requestsPerMinute\<close> and after
  any earlier calls, first refills the tokens by the elapsed time times
  \<open>requestsPerMinute / 60000\<close>, capped at the maximum; if fewer than one token results it
  asks to sleep \<open>Math.ceil((1 - tokens) / refillRate)\<close> milliseconds and refills again on
  waking; then it deducts exactly one token. The part after the sleep refills and deducts
  one token whatever the state it wakes up in. Every operation is the operation of the
  program on doubles.
\<close>

theorem acquire_refills_waits_deducts:
  "let L = js_acquire_all (js_new_RateLimiter requestsPerMinute t0) evs;
       rate = requestsPerMinute / Finite 60000;
       elapsed = Finite (of_int now) - Finite (of_int (js_lastRefill L));
       refilled = Math_min requestsPerMinute (js_tokens L + elapsed * rate);
       slept = Finite (of_int woke) - Finite (of_int now)
   in snd (js_acquire_start L now) =
        (if refilled < 1 then Some (Math_ceil ((1 - refilled) / rate)) else None)
      \<and> js_acquire L now woke =
        (if refilled < 1
         then L\<lparr>js_tokens := Math_min requestsPerMinute (refilled + slept * rate) - 1,
                js_lastRefill := woke\<rparr>
         else L\<lparr>js_tokens := refilled - 1, js_lastRefill := now\<rparr>)
      \<and> js_acquire_resume M woke =
        M\<lparr>js_tokens :=
            Math_min (js_maxTokens M)
              (js_tokens M + (Finite (of_int woke) - Finite (of_int (js_lastRefill M)))
                               * js_refillRate M) - 1,
          js_lastRefill := woke\<rparr>"
  by (simp add: Let_def js_acquire_def js_acquire_start_def js_acquire_resume_def js_waitTime_def
      js_acquire_all_new js_refill_def)

text \<open>
  The rounding of the doubles shows in the time asked: a limiter of one request per
  minute, emptied at time 0 and called again at 27370 ms, asks to sleep 32631 ms, one more
  than the \<open>60000 - 27370\<close> of exact arithmetic; and a limiter built for no request at all
  asks to sleep for ever.
\<close>

lemma acquire_wait_rounded:
  "snd (js_acquire_start (js_acquire (js_new_RateLimiter 1 0) 0 0) 27370) = Some (Finite 32631)
   \<and> snd (js_acquire_start (js_new_RateLimiter 0 0) 10) = Some PosInfinity"
  by code_simp

subsection \<open>RateLimiter in exact arithmetic\<close>

lemma refill_fixed [simp]:
  "maxTokens (refill L now) = maxTokens L" "refillRate (refill L now) = refillRate L"
  "lastRefill (refill L now) = now"
  "tokens (refill L now) = min (maxTokens L) (tokens L + of_int (now - lastRefill L) * refillRate L)"
  by (simp_all add: refill_def Let_def)

lemma acquire_fixed:
  "maxTokens (acquire L now woke) = maxTokens L" "refillRate (acquire L now woke) = refillRate L"
  by (simp_all add: acquire_def acquire_start_def acquire_resume_def Let_def)

lemma acquire_all_fixed:
  "maxTokens (acquire_all L evs) = maxTokens L \<and> refillRate (acquire_all L evs) = refillRate L"
  by (induction L evs rule: acquire_all.induct) (simp_all add: acquire_fixed)

lemma acquire_all_new:
  "maxTokens (acquire_all (new_RateLimiter rpm t0) evs) = rpm"
  "refillRate (acquire_all (new_RateLimiter rpm t0) evs) = rpm / 60000"
  by (simp_all add: acquire_all_fixed new_RateLimiter_def)

lemma before_deduct_ge_1:
  assumes "limiter_inv L" "clock_ok L now woke"
  shows "1 \<le> tokens (before_deduct L now woke) \<and> tokens (before_deduct L now woke) \<le> maxTokens L"
proof (cases "tokens (refill L now) < 1")
  case False
  then show ?thesis by (auto simp: before_deduct_def Let_def min_def split: if_splits)
next
  case True
  let ?L1 = "refill L now"
  have rate: "0 < refillRate L" using assms(1) by (simp add: limiter_inv_def)
  from assms(2) True rate obtain ms where ms: "ms = \<lceil>(1 - tokens ?L1) / refillRate L\<rceil>" "now + ms \<le> woke"
    by (auto simp: clock_ok_def acquire_start_def Let_def waitTime_def)
  have "(1 - tokens ?L1) / refillRate L \<le> of_int ms" using ms(1) by simp
  also have "\<dots> \<le> of_int (woke - now)" using ms(2) by simp
  finally have "1 - tokens ?L1 \<le> of_int (woke - now) * refillRate L"
    using rate by (simp add: pos_divide_le_eq)
  then have "1 \<le> tokens ?L1 + of_int (woke - lastRefill ?L1) * refillRate ?L1" by simp
  moreover have "1 \<le> maxTokens L" using assms(1) by (simp add: limiter_inv_def)
  ultimately show ?thesis using True by (simp add: before_deduct_def Let_def)
qed

lemma acquire_deducts: "tokens (acquire L now woke) = tokens (before_deduct L now woke) - 1"
  by (simp add: acquire_def acquire_start_def acquire_resume_def before_deduct_def Let_def)

lemma acquire_inv:
  assumes "limiter_inv L" "clock_ok L now woke"
  shows "limiter_inv (acquire L now woke)"
  using before_deduct_ge_1 [OF assms] assms(1)
  by (simp add: limiter_inv_def acquire_fixed acquire_deducts)

lemma acquire_all_inv:
  "limiter_inv L \<Longrightarrow> clocks_ok L evs \<Longrightarrow> limiter_inv (acquire_all L evs)"
  by (induction L evs rule: acquire_all.induct) (simp_all add: acquire_inv)

lemma clocks_ok_append:
  "clocks_ok L (evs @ evs') \<longleftrightarrow> clocks_ok L evs \<and> clocks_ok (acquire_all L evs) evs'"
  by (induction L evs rule: acquire_all.induct) auto

text \<open>
  Claim C9, as amended. On a limiter built for at least one request per minute, with calls
  of \<open>acquire\<close> that run one after the other, a clock that does not run backwards and
  sleeps that last at least as long as asked: after each call the token count lies between
  0 and the maximum, and the call has deducted exactly one token from a count of at least
  one.
\<close>

theorem sequential_acquire_keeps_tokens_in_range:
  assumes "1 \<le> requestsPerMinute"
    and "clocks_ok (new_RateLimiter requestsPerMinute t0) (evs @ [(now, woke)])"
  shows "let L = acquire_all (new_RateLimiter requestsPerMinute t0) evs;
             L' = acquire L now woke
         in 0 \<le> tokens L' \<and> tokens L' \<le> maxTokens L'
            \<and> tokens L' = tokens (before_deduct L now woke) - 1
            \<and> 1 \<le> tokens (before_deduct L now woke)"
proof -
  let ?L0 = "new_RateLimiter requestsPerMinute t0"
  have inv0: "limiter_inv ?L0" using assms(1) by (simp add: limiter_inv_def new_RateLimiter_def)
  have ok: "clocks_ok ?L0 evs" "clock_ok (acquire_all ?L0 evs) now woke"
    using assms(2) by (simp_all add: clocks_ok_append)
  have inv: "limiter_inv (acquire_all ?L0 evs)" using inv0 ok(1) by (rule acquire_all_inv)
  from acquire_inv [OF inv ok(2)] before_deduct_ge_1 [OF inv ok(2)]
  show ?thesis by (simp add: Let_def limiter_inv_def acquire_deducts)
qed

text \<open>The theorem at a limiter of one request per minute, on its second call.\<close>

theorem sequential_acquire_keeps_tokens_in_range_witness:
  "(1::real) \<le> 1
   \<and> clocks_ok (new_RateLimiter 1 0) ([(0, 0)] @ [(100, 60000)])
   \<and> (let L = acquire_all (new_RateLimiter 1 0) [(0, 0)];
           L' = acquire L 100 60000
       in 0 \<le> tokens L' \<and> tokens L' \<le> maxTokens L'
          \<and> tokens L' = tokens (before_deduct L 100 60000) - 1
          \<and> 1 \<le> tokens (before_deduct L 100 60000))"
proof -
  have h1: "(1::real) \<le> 1" by simp
  have h2: "clocks_ok (new_RateLimiter 1 0) ([(0, 0)] @ [(100, 60000)])" by code_simp
  from sequential_acquire_keeps_tokens_in_range [OF h1 h2] h1 h2
  show ?thesis by blast
qed

text \<open>
  Claim C9 as stated fails. With half a request per minute a single call ends with a
  negative count; and with one request per minute, two calls that both start before either
  wakes up each sleep the time they asked for, and the second ends with a negative count.
\<close>

theorem limiter_counterexample:
  "clock_ok (new_RateLimiter (1 / 2) 0) 0 60000
   \<and> tokens (acquire (new_RateLimiter (1 / 2) 0) 0 60000) = - (1 / 2)
   \<and> snd (acquire_start (acquire (new_RateLimiter 1 0) 0 0) 0) = Some (Finite_ms 60000)
   \<and> snd (acquire_start (fst (acquire_start (acquire (new_RateLimiter 1 0) 0 0) 0)) 0)
       = Some (Finite_ms 60000)
   \<and> tokens (acquire_resume
        (acquire_resume
           (fst (acquire_start (fst (acquire_start (acquire (new_RateLimiter 1 0) 0 0) 0)) 0))
           60000)
        60000) = - 1"
  by code_simp

subsection \<open>InflowClient.request\<close>

lemma request_loop_retries:
  assumes "0 \<le> a" "a + int k \<le> maxRetries cfg"
    and "\<forall>j<k. \<exists>e. executeRequest cfg (fetch (made + j)) = Inl e \<and> isRetryableError e"
  shows "request_loop cfg fetch a made delays =
         request_loop cfg fetch (a + int k) (made + k)
           (delays @ map (\<lambda>j. retryDelayMs cfg * 2 ^ (nat a + j)) [0..<k])"
  using assms
proof (induction k arbitrary: a made delays)
  case 0
  then show ?case by simp
next
  case (Suc k)
  from Suc.prems(3) obtain e where e: "executeRequest cfg (fetch made) = Inl e" "isRetryableError e"
    by force
  have lt: "a < maxRetries cfg" using Suc.prems(2) by simp
  have step: "request_loop cfg fetch a made delays =
      request_loop cfg fetch (a + 1) (Suc made) (delays @ [retryDelayMs cfg * 2 ^ nat a])"
    using e lt by (subst request_loop.simps) (simp add: Let_def)
  have rest: "\<forall>j<k. \<exists>e. executeRequest cfg (fetch (Suc made + j)) = Inl e \<and> isRetryableError e"
    using Suc.prems(3) by (metis Suc_less_eq add_Suc_shift)
  have ih: "request_loop cfg fetch (a + 1) (Suc made) (delays @ [retryDelayMs cfg * 2 ^ nat a]) =
      request_loop cfg fetch (a + 1 + int k) (Suc made + k)
        ((delays @ [retryDelayMs cfg * 2 ^ nat a]) @ map (\<lambda>j. retryDelayMs cfg * 2 ^ (nat (a + 1) + j)) [0..<k])"
    using Suc.prems(1,2) rest by (intro Suc.IH) auto
  have m: "map (\<lambda>j. retryDelayMs cfg * 2 ^ (nat a + j)) [0..<Suc k] =
           retryDelayMs cfg * 2 ^ nat a # map (\<lambda>j. retryDelayMs cfg * 2 ^ (nat (a + 1) + j)) [0..<k]"
    using Suc.prems(1) by (simp add: upt_conv_Cons map_Suc_upt [symmetric] nat_add_distrib del: upt_Suc)
  show ?case unfolding step ih m by (simp add: algebra_simps)
qed

lemma request_loop_stop:
  assumes "a \<le> maxRetries cfg" "executeRequest cfg (fetch made) = Inl e"
    and "a = maxRetries cfg \<or> \<not> isRetryableError e"
  shows "request_loop cfg fetch a made delays = (Inl e, Suc made, delays)"
  using assms by (subst request_loop.simps) (auto simp: Let_def)

lemma exec_503: "executeRequest cfg (Resolved response_503) =
   Inl (InflowApiError (ApiMessage ''Service down'') 503 (Some \<lparr>code = ''unavailable'', message = ''Service down''\<rparr>))"
  by (simp add: executeRequest_def response_503_def ok_def)

lemma exec_400: "executeRequest cfg (Resolved response_400) =
   Inl (InflowApiError (ApiMessage ''Invalid request'') 400 (Some \<lparr>code = ''invalid'', message = ''Invalid request''\<rparr>))"
  by (simp add: executeRequest_def response_400_def ok_def)

text \<open>
  Claim C3, as amended. When the attempts before attempt \<open>k\<close> fail with retryable errors and
  attempt \<open>k\<close> fails, either as the last one allowed (\<open>k = maxRetries\<close>) or with an error
  that is not retryable, \<open>request\<close> throws the error of attempt \<open>k\<close> itself, not wrapped,
  after \<open>k + 1\<close> attempts and the backoff delays \<open>retryDelayMs * 2 ^ n\<close> of the attempts
  before. In particular, when every attempt fails with a retryable error, there are
  exactly \<open>maxRetries + 1\<close> attempts and the last error is thrown as it is.
\<close>

theorem request_raises_last_error_itself:
  assumes "int k \<le> maxRetries cfg"
    and "\<forall>j<k. \<exists>e'. executeRequest cfg (fetch j) = Inl e' \<and> isRetryableError e'"
    and "executeRequest cfg (fetch k) = Inl e"
    and "int k = maxRetries cfg \<or> \<not> isRetryableError e"
  shows "request cfg fetch = (Inl e, Suc k, map (\<lambda>j. retryDelayMs cfg * 2 ^ j) [0..<k])"
proof -
  have "request_loop cfg fetch 0 0 [] =
        request_loop cfg fetch (0 + int k) (0 + k) ([] @ map (\<lambda>j. retryDelayMs cfg * 2 ^ (nat 0 + j)) [0..<k])"
    using assms(1,2) by (intro request_loop_retries) auto
  also have "\<dots> = (Inl e, Suc k, map (\<lambda>j. retryDelayMs cfg * 2 ^ j) [0..<k])"
    using assms(1,3,4) by (simp add: request_loop_stop)
  finally show ?thesis by (simp add: request_def)
qed

text \<open>The theorem on the configuration of the tests, every attempt answering 503.\<close>

theorem request_raises_last_error_itself_witness:
  "int 2 \<le> maxRetries cfg_test
   \<and> executeRequest cfg_test (Resolved response_503) =
        Inl (InflowApiError (ApiMessage ''Service down'') 503
               (Some \<lparr>code = ''unavailable'', message = ''Service down''\<rparr>))
   \<and> isRetryableError (InflowApiError (ApiMessage ''Service down'') 503
               (Some \<lparr>code = ''unavailable'', message = ''Service down''\<rparr>))
   \<and> int 2 = maxRetries cfg_test
   \<and> request cfg_test (\<lambda>n. Resolved response_503) =
     (Inl (InflowApiError (ApiMessage ''Service down'') 503
             (Some \<lparr>code = ''unavailable'', message = ''Service down''\<rparr>)), Suc 2, [100, 200])"
proof -
  have h1: "int 2 \<le> maxRetries cfg_test" by (simp add: cfg_test_def)
  have h2: "\<forall>j<2. \<exists>e'. executeRequest cfg_test ((\<lambda>n. Resolved response_503) j) = Inl e'
              \<and> isRetryableError e'"
    by (simp add: exec_503)
  have h3: "executeRequest cfg_test ((\<lambda>n. Resolved response_503) 2) =
        Inl (InflowApiError (ApiMessage ''Service down'') 503
               (Some \<lparr>code = ''unavailable'', message = ''Service down''\<rparr>))"
    by (simp add: exec_503)
  have h4: "int 2 = maxRetries cfg_test" by (simp add: cfg_test_def)
  have "request cfg_test (\<lambda>n. Resolved response_503) =
     (Inl (InflowApiError (ApiMessage ''Service down'') 503
             (Some \<lparr>code = ''unavailable'', message = ''Service down''\<rparr>)), Suc 2,
      map (\<lambda>j. retryDelayMs cfg_test * 2 ^ j) [0..<2])"
    using h1 h2 h3 h4 by (intro request_raises_last_error_itself) simp_all
  then show ?thesis using h1 h3 h4 by (simp add: cfg_test_def upt_conv_Cons del: upt_Suc)
qed

text \<open>
  Claim C3 as stated fails: after three attempts answered 503 the error thrown is the
  \<open>InflowApiError\<close> of the last attempt, whose name is not \<open>RetryExhaustedError\<close>.
\<close>

theorem request_503_counterexample:
  "request cfg_test (\<lambda>n. Resolved response_503) =
     (Inl (InflowApiError (ApiMessage ''Service down'') 503
             (Some \<lparr>code = ''unavailable'', message = ''Service down''\<rparr>)), 3, [100, 200])
   \<and> error_name (InflowApiError (ApiMessage ''Service down'') 503
             (Some \<lparr>code = ''unavailable'', message = ''Service down''\<rparr>)) \<noteq> ''RetryExhaustedError''"
  using request_loop_retries [of 0 2 cfg_test "\<lambda>n. Resolved response_503" 0 "[]"]
    request_loop_stop [of 2 cfg_test "\<lambda>n. Resolved response_503" "Suc (Suc 0)" _ "[100, 200]", OF _ exec_503]
  by (simp add: request_def exec_503 cfg_test_def upt_conv_Cons del: upt_Suc)

text \<open>
  Claim C4, as amended. The failure of an attempt is retried exactly when the attempt
  ended with a response of status 500 or more or of status 429, or with a \<open>TypeError\<close>:
  the one \<open>fetch\<close> rejects with on a network failure, the one thrown before \<open>fetch\<close> is
  called when the URL or the body cannot be built, and the one raised when the connection
  fails while the body of a successful response is read. A timeout, where no response is
  received, is raised with status 408 and is not retried; nor is any other failure
  (another status, a body that is not JSON): \<open>request\<close> throws it at once, with no further
  attempt and no further delay; as the first failure, after exactly one attempt and no
  delay at all.
\<close>

theorem retried_iff_5xx_429_or_TypeError:
  assumes "int k \<le> maxRetries cfg"
    and "\<forall>j<k. \<exists>e'. executeRequest cfg (fetch j) = Inl e' \<and> isRetryableError e'"
    and "executeRequest cfg (fetch k) = Inl e"
  shows "(isRetryableError e \<longleftrightarrow>
            (\<exists>r. fetch k = Resolved r \<and> (status r \<ge> 500 \<or> status r = 429))
            \<or> (\<exists>m. fetch k = FetchTypeError m)
            \<or> (\<exists>m. fetch k = TypeErrorBeforeFetch m)
            \<or> (\<exists>r m. fetch k = Resolved r \<and> ok r \<and> status r \<noteq> 204 \<and> json r = ReadFailed m))
       \<and> (fetch k = AbortError \<longrightarrow>
            e = InflowApiError (TimedOutAfter (requestTimeoutMs cfg)) 408 None)
       \<and> (\<not> isRetryableError e \<longrightarrow>
            request cfg fetch = (Inl e, Suc k, map (\<lambda>j. retryDelayMs cfg * 2 ^ j) [0..<k]))"
proof (intro conjI)
  show "isRetryableError e \<longleftrightarrow>
            (\<exists>r. fetch k = Resolved r \<and> (status r \<ge> 500 \<or> status r = 429))
            \<or> (\<exists>m. fetch k = FetchTypeError m)
            \<or> (\<exists>m. fetch k = TypeErrorBeforeFetch m)
            \<or> (\<exists>r m. fetch k = Resolved r \<and> ok r \<and> status r \<noteq> 204 \<and> json r = ReadFailed m)"
    using assms(3)
    by (cases "fetch k")
      (auto simp: executeRequest_def ok_def split: if_splits option.splits body.splits)
  show "fetch k = AbortError \<longrightarrow>
            e = InflowApiError (TimedOutAfter (requestTimeoutMs cfg)) 408 None"
    using assms(3) by (auto simp: executeRequest_def)
  show "\<not> isRetryableError e \<longrightarrow>
            request cfg fetch = (Inl e, Suc k, map (\<lambda>j. retryDelayMs cfg * 2 ^ j) [0..<k])"
  proof
    assume ne: "\<not> isRetryableError e"
    have "request_loop cfg fetch 0 0 [] =
        request_loop cfg fetch (0 + int k) (0 + k) ([] @ map (\<lambda>j. retryDelayMs cfg * 2 ^ (nat 0 + j)) [0..<k])"
      using assms(1,2) by (intro request_loop_retries) auto
    also have "\<dots> = (Inl e, Suc k, map (\<lambda>j. retryDelayMs cfg * 2 ^ j) [0..<k])"
      using assms(1,3) ne by (simp add: request_loop_stop)
    finally show "request cfg fetch = (Inl e, Suc k, map (\<lambda>j. retryDelayMs cfg * 2 ^ j) [0..<k])"
      by (simp add: request_def)
  qed
qed

text \<open>The theorem on the configuration of the tests, the first attempt answering 400.\<close>

theorem retried_iff_5xx_429_or_TypeError_witness:
  "int 0 \<le> maxRetries cfg_test
   \<and> executeRequest cfg_test (Resolved response_400) =
        Inl (InflowApiError (ApiMessage ''Invalid request'') 400
               (Some \<lparr>code = ''invalid'', message = ''Invalid request''\<rparr>))
   \<and> \<not> isRetryableError (InflowApiError (ApiMessage ''Invalid request'') 400
        (Some \<lparr>code = ''invalid'', message = ''Invalid request''\<rparr>))
   \<and> request cfg_test (\<lambda>n. Resolved response_400) =
     (Inl (InflowApiError (ApiMessage ''Invalid request'') 400
        (Some \<lparr>code = ''invalid'', message = ''Invalid request''\<rparr>)), Suc 0, [])"
  using retried_iff_5xx_429_or_TypeError [of 0 cfg_test "\<lambda>n. Resolved response_400", OF _ _ exec_400]
  by (simp add: cfg_test_def exec_400)

text \<open>
  Claim C4 as stated fails. When the timeout aborts the first attempt no response has
  been received, and yet \<open>request\<close> throws at once, after one attempt and with no delay:
  the error it throws carries the status 408, which is not retryable.
\<close>

theorem timeout_counterexample:
  "claimed_retryable (AbortError :: string attempt)
   \<and> executeRequest cfg_test (AbortError :: string attempt)
       = Inl (InflowApiError (TimedOutAfter 5000) 408 None)
   \<and> \<not> isRetryableError (InflowApiError (TimedOutAfter 5000) 408 None)
   \<and> request cfg_test (\<lambda>n. AbortError :: string attempt)
       = (Inl (InflowApiError (TimedOutAfter 5000) 408 None), 1, [])"
  using request_loop_stop [of 0 cfg_test "\<lambda>n. AbortError :: string attempt" 0
      "InflowApiError (TimedOutAfter 5000) 408 None" "[]"]
  by (simp add: claimed_retryable_def executeRequest_def cfg_test_def request_def)

section \<open>Properties of the receive ledger\<close>

subsection \<open>The LIFO sort and walk\<close>

lemma lifo_compare_le: "lifo_compare a b \<le> 0 \<longleftrightarrow> lifo_order a b"
  by (auto simp: lifo_compare_def lifo_order_def Let_def)

lemma lifo_order_total: "lifo_order a b \<or> lifo_order b a"
  by (auto simp: lifo_order_def)

lemma lifo_order_trans: "lifo_order a b \<Longrightarrow> lifo_order b c \<Longrightarrow> lifo_order a c"
  unfolding lifo_order_def by (elim disjE conjE) (auto intro: order.strict_trans order.trans)

lemma set_js_insort: "set (js_insort cmp x ys) = insert x (set ys)"
  by (induction ys) auto

lemma mset_js_insort: "mset (js_insort cmp x ys) = add_mset x (mset ys)"
  by (induction ys) auto

lemma mset_js_sort: "mset (js_sort cmp xs) = mset xs"
  by (induction xs) (simp_all add: js_sort_def mset_js_insort)

lemma sorted_js_insort:
  "sorted_wrt lifo_order ys \<Longrightarrow> sorted_wrt lifo_order (js_insort lifo_compare x ys)"
proof (induction ys)
  case Nil
  then show ?case by simp
next
  case (Cons y ys)
  show ?case
  proof (cases "lifo_compare x y \<le> 0")
    case True
    then have "lifo_order x y" by (simp add: lifo_compare_le)
    then have "\<forall>z\<in>set ys. lifo_order x z" using Cons.prems by (auto intro: lifo_order_trans)
    then show ?thesis using True Cons.prems \<open>lifo_order x y\<close> by simp
  next
    case False
    then have "lifo_order y x" using lifo_order_total [of x y] by (simp add: lifo_compare_le)
    then show ?thesis using False Cons by (auto simp: set_js_insort)
  qed
qed

lemma sorted_js_sort: "sorted_wrt lifo_order (js_sort lifo_compare xs)"
  by (induction xs) (simp_all add: js_sort_def sorted_js_insort)

lemma positive_walk_nonpos [simp]: "r \<le> 0 \<Longrightarrow> positive_walk es r = ([], None)"
  by (cases es) auto

lemma lifo_walk_nonpos [simp]: "r \<le> 0 \<Longrightarrow> lifo_walk E ls r st = st"
  by (cases ls) auto

lemma lifo_walk_marked:
  "lifo_walk E ls r st = marked st (positive_walk (map (entry_of E) ls) r)"
proof (induction ls arbitrary: r st)
  case Nil
  then show ?case by (simp add: marked_def)
next
  case (Cons rl ls)
  show ?case
  proof (cases "r \<le> 0")
    case True
    then show ?thesis by (simp add: marked_def entry_of_def)
  next
    case False
    then show ?thesis
      by (simp add: Cons.IH entry_of_def Let_def) (simp add: marked_def)
  qed
qed

lemma ex4:
  "unreceive_item_step example_env [entry_t1, entry_t2] Map.empty st0
     \<lparr>ui_productId = ''widget'', ui_quantity = Finite 4\<rparr>
   = \<lparr>removeSet = [''rl-2''],
      partialMods = [\<lparr>pm_id = ''rl-1'', pm_newQty = Finite 4, pm_oldQty = Finite 5\<rparr>],
      unreceive_errors = []\<rparr>"
  by code_simp

lemma ex4_written:
  "map pb_receiveLines
     (snd (unreceive_purchase_order example_env (Inr (Some (example_order [entry_t1, entry_t2])))
             put_ok (unreceive_request [widget 4] None)))
   = [entry_t1\<lparr>rl_quantity := decimal ''4.0000''\<rparr>] # []"
  by code_simp

lemma sum_list_filter_mset_cong:
  fixes f :: "'a \<Rightarrow> real"
  assumes "mset xs = mset ys"
  shows "sum_list (map f (filter P xs)) = sum_list (map f (filter P ys))"
proof -
  have "sum_list (map f (filter P xs)) = sum_mset (image_mset f (filter_mset P (mset xs)))"
    by (simp flip: sum_mset_sum_list)
  also have "\<dots> = sum_mset (image_mset f (filter_mset P (mset ys)))" using assms by simp
  also have "\<dots> = sum_list (map f (filter P ys))" by (simp flip: sum_mset_sum_list)
  finally show ?thesis .
qed

lemma sum_list_js_sort:
  fixes f :: "'a \<Rightarrow> real"
  shows "sum_list (map f (js_sort cmp ls)) = sum_list (map f ls)"
  using sum_list_filter_mset_cong [OF mset_js_sort, of f "\<lambda>x. True" cmp ls] by simp

lemma positive_walk_prefix:
  "fst (positive_walk es r) = map fst (take (length (fst (positive_walk es r))) es)"
  by (induction es r rule: positive_walk.induct) auto

lemma exact_difference_val:
  assumes "exact_difference a b"
  shows "is_finite a" "is_finite b" "is_finite (a - b)" "val (a - b) = val a - val b"
  using assms by (simp_all add: exact_difference_def)

lemma positive_walk_conserves:
  assumes "is_finite r" "0 \<le> val r" "val r \<le> sum_list (map (\<lambda>e. val (snd e)) es)"
    and "exact_walk es r"
  shows "sum_list (map (\<lambda>e. val (snd e)) (take (length (fst (positive_walk es r))) es))
         + (case snd (positive_walk es r) of
              None \<Rightarrow> 0 | Some (i, oldQty, newQty) \<Rightarrow> val oldQty - val newQty)
         = val r"
  using assms
proof (induction es arbitrary: r)
  case Nil
  then show ?case by simp
next
  case (Cons e es)
  obtain i q where e: "e = (i, q)" by (cases e)
  show ?case
  proof (cases "r \<le> 0")
    case True
    then have "val r \<le> 0" using Cons.prems(1) by (simp add: le_finite)
    then show ?thesis using True Cons.prems(2) by (simp add: e)
  next
    case pos: False
    show ?thesis
    proof (cases "q \<le> r")
      case True
      then have x: "exact_difference r q" "exact_walk es (r - q)"
        using Cons.prems(4) pos by (simp_all add: e)
      have le: "val q \<le> val r"
        using True exact_difference_val(1,2) [OF x(1)] by (simp add: le_finite)
      have "sum_list (map (\<lambda>e. val (snd e)) (take (length (fst (positive_walk es (r - q)))) es))
         + (case snd (positive_walk es (r - q)) of
              None \<Rightarrow> 0 | Some (i, oldQty, newQty) \<Rightarrow> val oldQty - val newQty)
         = val (r - q)"
        using exact_difference_val [OF x(1)] le Cons.prems(3) x(2)
        by (intro Cons.IH) (simp_all add: e)
      then show ?thesis
        using True pos exact_difference_val(4) [OF x(1)] by (simp add: e)
    next
      case False
      then have x: "exact_difference q r" using Cons.prems(4) pos by (simp add: e)
      show ?thesis
        using False pos exact_difference_val(4) [OF x] by (simp add: e)
    qed
  qed
qed

lemma valid_request_bounds:
  assumes "0 \<le> n" "\<not> Finite S < n"
  shows "is_finite n \<and> 0 \<le> val n \<and> val n \<le> S"
  using assms
  by (cases n) (auto simp: less_js_number_def less_eq_js_number_def rank_def zero_js_number_def)

lemma filter_take_distinct:
  assumes "distinct (map f xs)"
  shows "filter (\<lambda>x. f x \<in> set (map f (take k xs))) xs = take k xs"
  using assms
proof (induction xs arbitrary: k)
  case Nil
  then show ?case by simp
next
  case (Cons x xs)
  show ?case
  proof (cases k)
    case 0
    then show ?thesis by simp
  next
    case (Suc k')
    have "filter (\<lambda>y. f y \<in> set (map f (take k (x # xs)))) xs
          = filter (\<lambda>y. f y \<in> set (map f (take k' xs))) xs"
    proof (intro filter_cong refl)
      fix y assume "y \<in> set xs"
      then have "f y \<noteq> f x" using Cons.prems by (metis distinct.simps(2) image_eqI list.simps(9) set_map)
      then show "(f y \<in> set (map f (take k (x # xs)))) = (f y \<in> set (map f (take k' xs)))"
        using Suc by auto
    qed
    also have "\<dots> = take k' xs" using Cons.prems by (intro Cons.IH) simp
    finally show ?thesis using Suc by simp
  qed
qed

lemma set_foldl_set_add: "set (foldl (\<lambda>s i. set_add i s) xs ys) = set xs \<union> set ys"
  by (induction ys arbitrary: xs) (auto simp: set_add_def)

lemma marked_fields:
  "removeSet (marked st w) = foldl (\<lambda>s i. set_add i s) (removeSet st) (fst w)"
  "partialMods (marked st w) = partialMods st @
          (case snd w of None \<Rightarrow> []
           | Some (i, oldQty, newQty) \<Rightarrow> [\<lparr>pm_id = i, pm_newQty = newQty, pm_oldQty = oldQty\<rparr>])"
  "unreceive_errors (marked st w) = unreceive_errors st"
  by (simp_all add: marked_def)

lemma unreceive_item_step_valid:
  assumes "productLines_of existing (ui_productId item) \<noteq> []"
    and "\<not> ui_quantity item > totalReceived E (productLines_of existing (ui_productId item))"
  shows "unreceive_item_step E existing names st item =
         marked st (positive_walk
           (map (entry_of E) (js_sort lifo_compare (productLines_of existing (ui_productId item))))
           (ui_quantity item))"
  using assms by (simp add: unreceive_item_step_def Let_def lifo_walk_marked)

text \<open>
  Claim C1, as amended. For a LIFO request \<open>{product, quantity}\<close> whose quantity does not
  exceed the total received for the product, the handler sorts the product's entries
  descending by receive date, then by version stamp, then by identity, and walks the
  sorted list while the remainder to remove is positive, computing on doubles: an entry
  whose quantity is at most the remainder is removed whole and its quantity subtracted;
  the first other entry is reduced to \<open>quantity - remainder\<close> and the walk stops; once the
  remainder is no longer positive nothing more is removed or reduced. For the entries
  quantity 5 at \<open>t1\<close> and quantity 3 at the later \<open>t2\<close> and the request 4, the entry at
  \<open>t2\<close> is removed and the entry at \<open>t1\<close> is reduced to 4, and the ledger written back is
  the entry at \<open>t1\<close> with the quantity \<open>4.0000\<close>.
\<close>

theorem lifo_sorts_and_walks_while_positive:
  assumes "productLines_of existing (ui_productId item) \<noteq> []"
    and "\<not> ui_quantity item > totalReceived E (productLines_of existing (ui_productId item))"
  shows "(let newest_first = js_sort lifo_compare (productLines_of existing (ui_productId item))
          in sorted_wrt lifo_order newest_first
             \<and> mset newest_first = mset (productLines_of existing (ui_productId item))
             \<and> unreceive_item_step E existing names st item =
                 marked st (positive_walk (map (entry_of E) newest_first) (ui_quantity item)))
       \<and> unreceive_item_step example_env [entry_t1, entry_t2] Map.empty st0
            \<lparr>ui_productId = ''widget'', ui_quantity = Finite 4\<rparr>
          = \<lparr>removeSet = [''rl-2''],
             partialMods = [\<lparr>pm_id = ''rl-1'', pm_newQty = Finite 4, pm_oldQty = Finite 5\<rparr>],
             unreceive_errors = []\<rparr>
       \<and> map pb_receiveLines
           (snd (unreceive_purchase_order example_env
                   (Inr (Some (example_order [entry_t1, entry_t2]))) put_ok
                   (unreceive_request [widget 4] None)))
          = [entry_t1\<lparr>rl_quantity := decimal ''4.0000''\<rparr>] # []"
  using unreceive_item_step_valid [OF assms]
  by (simp add: Let_def sorted_js_sort mset_js_sort ex4 ex4_written)

text \<open>The theorem on the two entries of the example and the request 4.\<close>

theorem lifo_sorts_and_walks_while_positive_witness:
  "productLines_of [entry_t1, entry_t2] (ui_productId (widget 4)) \<noteq> []
   \<and> \<not> ui_quantity (widget 4)
       > totalReceived example_env (productLines_of [entry_t1, entry_t2] (ui_productId (widget 4)))
   \<and> sorted_wrt lifo_order
        (js_sort lifo_compare (productLines_of [entry_t1, entry_t2] (ui_productId (widget 4))))
   \<and> unreceive_item_step example_env [entry_t1, entry_t2] Map.empty st0 (widget 4) =
        marked st0 (positive_walk
          (map (entry_of example_env)
             (js_sort lifo_compare (productLines_of [entry_t1, entry_t2] (ui_productId (widget 4)))))
          (ui_quantity (widget 4)))"
proof -
  have h1: "productLines_of [entry_t1, entry_t2] (ui_productId (widget 4)) \<noteq> []"
    by code_simp
  have h2: "\<not> ui_quantity (widget 4)
       > totalReceived example_env (productLines_of [entry_t1, entry_t2] (ui_productId (widget 4)))"
    by code_simp
  from lifo_sorts_and_walks_while_positive [OF h1 h2, of Map.empty st0] h1 h2
  show ?thesis by (simp add: Let_def)
qed

text \<open>
  Claim C1 as stated fails. On the same entries the request 3 is used up by the entry at
  \<open>t2\<close>: the handler stops there and reduces nothing, where the walk as worded goes on to
  the entry at \<open>t1\<close>, whose quantity 5 exceeds the remainder 0, and marks it for a
  reduction to 5. And the request \<open>-2\<close>, which does not exceed the total received, makes
  the handler mark nothing, where the walk as worded takes the entry at \<open>t2\<close>, whose
  quantity 3 exceeds \<open>-2\<close>, to the quantity 5.
\<close>

theorem lifo_claimed_walk_counterexample:
  "productLines_of [entry_t1, entry_t2] ''widget'' \<noteq> []
   \<and> \<not> Finite 3 > totalReceived example_env (productLines_of [entry_t1, entry_t2] ''widget'')
   \<and> unreceive_item_step example_env [entry_t1, entry_t2] Map.empty st0 (widget 3)
       = \<lparr>removeSet = [''rl-2''], partialMods = [], unreceive_errors = []\<rparr>
   \<and> marked st0 (claimed_walk
         (map (entry_of example_env)
            (js_sort lifo_compare (productLines_of [entry_t1, entry_t2] ''widget''))) (Finite 3))
       = \<lparr>removeSet = [''rl-2''],
          partialMods = [\<lparr>pm_id = ''rl-1'', pm_newQty = Finite 5, pm_oldQty = Finite 5\<rparr>],
          unreceive_errors = []\<rparr>
   \<and> \<not> Finite (- 2) > totalReceived example_env (productLines_of [entry_t1, entry_t2] ''widget'')
   \<and> unreceive_item_step example_env [entry_t1, entry_t2] Map.empty st0 (widget (- 2))
       = \<lparr>removeSet = [], partialMods = [], unreceive_errors = []\<rparr>
   \<and> marked st0 (claimed_walk
         (map (entry_of example_env)
            (js_sort lifo_compare (productLines_of [entry_t1, entry_t2] ''widget''))) (Finite (- 2)))
       = \<lparr>removeSet = [],
          partialMods = [\<lparr>pm_id = ''rl-2'', pm_newQty = Finite 5, pm_oldQty = Finite 3\<rparr>],
          unreceive_errors = []\<rparr>"
  by code_simp

text \<open>
  The rounding of the doubles shows in the walk. With the entries 0.1 and, later, 0.2 the
  request 0.3 passes validation (the total computed is the double above 0.3); the walk
  removes the entry 0.2, is left with a remainder just below 0.1, and reduces the entry
  0.1 to \<open>2 ^ - 55\<close>, which is written back as \<open>0.0000\<close>.
\<close>

lemma lifo_walk_rounded:
  "unreceive_item_step example_env [entry_on ''a'' ''01'' ''0.1000'', entry_on ''b'' ''02'' ''0.2000'']
     Map.empty st0 (widget (3 / 10))
   = \<lparr>removeSet = [''b''],
      partialMods = [\<lparr>pm_id = ''a'', pm_newQty = Finite (1 / 2 ^ 55), pm_oldQty = number (1 / 10)\<rparr>],
      unreceive_errors = []\<rparr>"
  by code_simp

text \<open>
  Claim C8, as amended. For a LIFO item that passes validation and asks for a quantity that
  is not negative, and when the arithmetic of the doubles is exact on it (the total
  received is computed without rounding, and so is every difference of the walk), the walk
  conserves quantity exactly: the entries it marks for removal are the first \<open>k\<close> of the
  LIFO order, and their quantities plus the reduction of the reduced entry add up to the
  quantity asked; at most one entry is reduced. Counted over the set of identities to
  remove, the same sum results when the entries of the product have distinct identities of
  which none was selected by an earlier item of the call.
\<close>

theorem lifo_walk_conserves_quantity:
  assumes "productLines_of existing (ui_productId item) \<noteq> []"
    and "\<not> ui_quantity item > totalReceived E (productLines_of existing (ui_productId item))"
    and "0 \<le> ui_quantity item"
    and "exact_total E (productLines_of existing (ui_productId item))"
    and "exact_walk
           (map (entry_of E) (js_sort lifo_compare (productLines_of existing (ui_productId item))))
           (ui_quantity item)"
  shows "let productLines = productLines_of existing (ui_productId item);
             newest_first = js_sort lifo_compare productLines;
             W = positive_walk (map (entry_of E) newest_first) (ui_quantity item);
             k = length (fst W);
             st' = unreceive_item_step E existing names st item;
             reduced = drop (length (partialMods st)) (partialMods st')
         in st' = marked st W
            \<and> fst W = map (\<lambda>rl. the (purchaseOrderReceiveLineId rl)) (take k newest_first)
            \<and> sum_list (map (\<lambda>rl. val (parseLineQuantity E (rl_quantity rl))) (take k newest_first))
                 + sum_list (map (\<lambda>m. val (pm_oldQty m) - val (pm_newQty m)) reduced)
               = val (ui_quantity item)
            \<and> length reduced \<le> 1
            \<and> (distinct (map purchaseOrderReceiveLineId productLines)
                 \<and> list_all (\<lambda>rl. the (purchaseOrderReceiveLineId rl) \<notin> set (removeSet st))
                      productLines
               \<longrightarrow> sum_list (map (\<lambda>rl. val (parseLineQuantity E (rl_quantity rl)))
                      (filter (\<lambda>rl. the (purchaseOrderReceiveLineId rl) \<in> set (removeSet st'))
                         productLines))
                    + sum_list (map (\<lambda>m. val (pm_oldQty m) - val (pm_newQty m)) reduced)
                  = val (ui_quantity item))"
proof -
  let ?pl = "productLines_of existing (ui_productId item)"
  let ?S = "js_sort lifo_compare ?pl"
  let ?es = "map (entry_of E) ?S"
  let ?W = "positive_walk ?es (ui_quantity item)"
  let ?k = "length (fst ?W)"
  let ?id = "\<lambda>rl. the (purchaseOrderReceiveLineId rl)"
  let ?q = "\<lambda>rl. val (parseLineQuantity E (rl_quantity rl))"
  let ?st' = "unreceive_item_step E existing names st item"
  let ?reduced = "drop (length (partialMods st)) (partialMods ?st')"
  have st': "?st' = marked st ?W" using assms(1,2) by (rule unreceive_item_step_valid)
  have W1: "fst ?W = map ?id (take ?k ?S)"
  proof -
    have "fst ?W = map fst (take ?k ?es)" by (rule positive_walk_prefix)
    also have "\<dots> = map ?id (take ?k ?S)" by (simp add: take_map entry_of_def comp_def)
    finally show ?thesis .
  qed
  have tot: "totalReceived E ?pl = Finite (sum_list (map ?q ?pl))"
    using assms(4) by (simp add: exact_total_def)
  have b: "is_finite (ui_quantity item) \<and> 0 \<le> val (ui_quantity item)
           \<and> val (ui_quantity item) \<le> sum_list (map ?q ?pl)"
    using assms(2,3) unfolding tot by (intro valid_request_bounds) simp_all
  have "sum_list (map (\<lambda>e. val (snd e)) ?es) = sum_list (map ?q ?S)"
    by (simp add: entry_of_def comp_def)
  also have "\<dots> = sum_list (map ?q ?pl)" by (rule sum_list_js_sort)
  finally have total: "val (ui_quantity item) \<le> sum_list (map (\<lambda>e. val (snd e)) ?es)"
    using b by simp
  have "map (\<lambda>e. val (snd e)) (take ?k ?es) = map ?q (take ?k ?S)"
    by (simp add: take_map entry_of_def comp_def)
  then have cons: "sum_list (map ?q (take ?k ?S))
         + (case snd ?W of None \<Rightarrow> 0 | Some (i, oldQty, newQty) \<Rightarrow> val oldQty - val newQty)
         = val (ui_quantity item)"
    using positive_walk_conserves [OF _ _ total assms(5)] b by simp
  have reduced: "?reduced =
      (case snd ?W of None \<Rightarrow> []
       | Some (i, oldQty, newQty) \<Rightarrow> [\<lparr>pm_id = i, pm_newQty = newQty, pm_oldQty = oldQty\<rparr>])"
    by (simp add: st' marked_fields)
  have red_sum: "sum_list (map (\<lambda>m. val (pm_oldQty m) - val (pm_newQty m)) ?reduced) =
      (case snd ?W of None \<Rightarrow> 0 | Some (i, oldQty, newQty) \<Rightarrow> val oldQty - val newQty)"
    unfolding reduced by (auto split: option.splits)
  have len: "length ?reduced \<le> 1" unfolding reduced by (auto split: option.splits)
  have by_set: "sum_list (map ?q (filter (\<lambda>rl. ?id rl \<in> set (removeSet ?st')) ?pl))
      = sum_list (map ?q (take ?k ?S))"
    if d: "distinct (map purchaseOrderReceiveLineId ?pl)"
      and f: "list_all (\<lambda>rl. ?id rl \<notin> set (removeSet st)) ?pl"
  proof -
    have some: "\<forall>rl \<in> set ?pl. purchaseOrderReceiveLineId rl \<noteq> None"
      by (auto simp: productLines_of_def elim: truthy.elims)
    have "inj_on the (set (map purchaseOrderReceiveLineId ?pl))"
    proof (rule inj_onI)
      fix a b assume ab: "a \<in> set (map purchaseOrderReceiveLineId ?pl)"
        "b \<in> set (map purchaseOrderReceiveLineId ?pl)" and eq: "the a = the b"
      from ab some have "a \<noteq> None" "b \<noteq> None" by auto
      then obtain x y where "a = Some x" "b = Some y" by blast
      with eq show "a = b" by simp
    qed
    then have dpl: "distinct (map ?id ?pl)"
      using d distinct_map [of the "map purchaseOrderReceiveLineId ?pl"] by (simp add: comp_def)
    have "mset (map ?id ?S) = mset (map ?id ?pl)" by (simp add: mset_js_sort)
    then have dS: "distinct (map ?id ?S)" using dpl by (metis mset_eq_imp_distinct_iff)
    have "filter (\<lambda>rl. ?id rl \<in> set (removeSet ?st')) ?pl
          = filter (\<lambda>rl. ?id rl \<in> set (fst ?W)) ?pl"
      using f by (intro filter_cong) (auto simp: st' marked_fields set_foldl_set_add list_all_iff)
    then have "sum_list (map ?q (filter (\<lambda>rl. ?id rl \<in> set (removeSet ?st')) ?pl))
               = sum_list (map ?q (filter (\<lambda>rl. ?id rl \<in> set (fst ?W)) ?S))"
      using sum_list_filter_mset_cong [OF mset_js_sort [symmetric], of ?q "\<lambda>rl. ?id rl \<in> set (fst ?W)" ?pl lifo_compare]
      by simp
    also have "filter (\<lambda>rl. ?id rl \<in> set (fst ?W)) ?S = take ?k ?S"
      using filter_take_distinct [OF dS, of ?k] W1 by simp
    finally show ?thesis .
  qed
  show ?thesis
    unfolding Let_def using st' W1 cons red_sum len by_set by simp
qed

text \<open>The theorem on the two entries of the example and the request 4.\<close>

theorem lifo_walk_conserves_quantity_witness:
  "productLines_of [entry_t1, entry_t2] (ui_productId (widget 4)) \<noteq> []
   \<and> \<not> ui_quantity (widget 4)
       > totalReceived example_env (productLines_of [entry_t1, entry_t2] (ui_productId (widget 4)))
   \<and> 0 \<le> ui_quantity (widget 4)
   \<and> exact_total example_env (productLines_of [entry_t1, entry_t2] (ui_productId (widget 4)))
   \<and> exact_walk
        (map (entry_of example_env)
           (js_sort lifo_compare (productLines_of [entry_t1, entry_t2] (ui_productId (widget 4)))))
        (ui_quantity (widget 4))
   \<and> distinct (map purchaseOrderReceiveLineId
        (productLines_of [entry_t1, entry_t2] (ui_productId (widget 4))))
   \<and> list_all (\<lambda>rl. the (purchaseOrderReceiveLineId rl) \<notin> set (removeSet st0))
        (productLines_of [entry_t1, entry_t2] (ui_productId (widget 4)))
   \<and> sum_list (map (\<lambda>rl. val (parseLineQuantity example_env (rl_quantity rl)))
        (filter (\<lambda>rl. the (purchaseOrderReceiveLineId rl)
                   \<in> set (removeSet (unreceive_item_step example_env [entry_t1, entry_t2]
                                        Map.empty st0 (widget 4))))
           (productLines_of [entry_t1, entry_t2] (ui_productId (widget 4)))))
      + sum_list (map (\<lambda>m. val (pm_oldQty m) - val (pm_newQty m))
          (drop (length (partialMods st0))
             (partialMods (unreceive_item_step example_env [entry_t1, entry_t2]
                             Map.empty st0 (widget 4)))))
      = val (ui_quantity (widget 4))
   \<and> length (drop (length (partialMods st0))
             (partialMods (unreceive_item_step example_env [entry_t1, entry_t2]
                             Map.empty st0 (widget 4)))) \<le> 1"
proof -
  have h1: "productLines_of [entry_t1, entry_t2] (ui_productId (widget 4)) \<noteq> []"
    by code_simp
  have h2: "\<not> ui_quantity (widget 4)
       > totalReceived example_env (productLines_of [entry_t1, entry_t2] (ui_productId (widget 4)))"
    by code_simp
  have h3: "0 \<le> ui_quantity (widget 4)" by code_simp
  have h4: "exact_total example_env
              (productLines_of [entry_t1, entry_t2] (ui_productId (widget 4)))"
    by code_simp
  have h5: "exact_walk
        (map (entry_of example_env)
           (js_sort lifo_compare (productLines_of [entry_t1, entry_t2] (ui_productId (widget 4)))))
        (ui_quantity (widget 4))"
    by code_simp
  have h6: "distinct (map purchaseOrderReceiveLineId
        (productLines_of [entry_t1, entry_t2] (ui_productId (widget 4))))"
    by code_simp
  have h7: "list_all (\<lambda>rl. the (purchaseOrderReceiveLineId rl) \<notin> set (removeSet st0))
        (productLines_of [entry_t1, entry_t2] (ui_productId (widget 4)))"
    by code_simp
  from lifo_walk_conserves_quantity [OF h1 h2 h3 h4 h5, of Map.empty st0, unfolded Let_def]
    h1 h2 h3 h4 h5 h6 h7
  show ?thesis by blast
qed

text \<open>
  Claim C8 as stated fails. The request \<open>-2\<close> passes validation (it does not exceed the
  total received); the loop ends at once, nothing is removed or reduced, and the sum 0 is
  not the quantity asked. No rounding occurs on these whole numbers.
\<close>

theorem negative_unreceive_counterexample:
  "productLines_of [entry_t1, entry_t2] ''widget'' \<noteq> []
   \<and> \<not> ui_quantity (widget (- 2))
       > totalReceived example_env (productLines_of [entry_t1, entry_t2] ''widget'')
   \<and> unreceive_item_step example_env [entry_t1, entry_t2] Map.empty st0 (widget (- 2))
       = \<lparr>removeSet = [], partialMods = [], unreceive_errors = []\<rparr>
   \<and> (let st' = unreceive_item_step example_env [entry_t1, entry_t2] Map.empty st0 (widget (- 2));
           removed = filter (\<lambda>rl. the (purchaseOrderReceiveLineId rl) \<in> set (removeSet st'))
                       (productLines_of [entry_t1, entry_t2] ''widget'');
           reduced = drop (length (partialMods st0)) (partialMods st')
       in sum_list (map (\<lambda>rl. val (parseLineQuantity example_env (rl_quantity rl))) removed)
            + sum_list (map (\<lambda>m. val (pm_oldQty m) - val (pm_newQty m)) reduced)
          \<noteq> val (ui_quantity (widget (- 2))))"
  by code_simp

text \<open>
  Without the exactness the sum is off by the rounding. The entries 24.0633, 19.7, 42.3253
  and 48.68, from the oldest to the newest, and the request 116.14 leave the oldest entry
  reduced, and the quantities removed and the reduction add up to a number that is not the
  double 116.14.
\<close>

lemma lifo_walk_rounding_breaks_conservation:
  "(let ledger = [entry_on ''a'' ''01'' ''24.0633'', entry_on ''b'' ''02'' ''19.7000'',
                  entry_on ''c'' ''03'' ''42.3253'', entry_on ''d'' ''04'' ''48.6800''];
        st' = unreceive_item_step example_env ledger Map.empty st0 (widget (11614 / 100));
        removed = filter (\<lambda>rl. the (purchaseOrderReceiveLineId rl) \<in> set (removeSet st')) ledger
    in removeSet st' = [''d'', ''c'', ''b''] \<and> map pm_id (partialMods st') = [''a'']
       \<and> unreceive_errors st' = []
       \<and> sum_list (map (\<lambda>rl. val (parseLineQuantity example_env (rl_quantity rl))) removed)
            + sum_list (map (\<lambda>m. val (pm_oldQty m) - val (pm_newQty m)) (partialMods st'))
          \<noteq> val (ui_quantity (widget (11614 / 100))))"
  by code_simp

text \<open>Whole quantities with a total of at most \<open>2 ^ 53\<close> are handled without rounding.\<close>

lemma whole_total:
  assumes "\<And>rl. rl \<in> set ls \<Longrightarrow> parseLineQuantity E (rl_quantity rl) = Finite (real (q rl))"
    and "a + sum_list (map q ls) \<le> 2 ^ 53"
  shows "foldl (\<lambda>sum rl. sum + parseLineQuantity E (rl_quantity rl)) (Finite (real a)) ls
         = Finite (real (a + sum_list (map q ls)))"
  using assms
proof (induction ls arbitrary: a)
  case Nil
  then show ?case by simp
next
  case (Cons rl ls)
  have "\<bar>int a + int (q rl)\<bar> \<le> 2 ^ 53" using Cons.prems(2) by simp
  from plus_whole [OF this]
  have s: "Finite (real a) + Finite (real (q rl)) = Finite (real (a + q rl))" by simp
  have "foldl (\<lambda>sum rl. sum + parseLineQuantity E (rl_quantity rl)) (Finite (real (a + q rl))) ls
         = Finite (real (a + q rl + sum_list (map q ls)))"
    using Cons.prems by (intro Cons.IH) (simp_all add: add.assoc)
  then show ?case using Cons.prems(1) s by (simp add: add.assoc)
qed

lemma whole_walk:
  assumes "\<And>e. e \<in> set es \<Longrightarrow> \<exists>m::nat. snd e = Finite (real m) \<and> m \<le> 2 ^ 53"
    and "n \<le> 2 ^ 53"
  shows "exact_walk es (Finite (real n))"
  using assms
proof (induction es arbitrary: n)
  case Nil
  then show ?case by simp
next
  case (Cons e es)
  obtain i x where e: "e = (i, x)" by (cases e)
  obtain m where m: "x = Finite (real m)" "m \<le> 2 ^ 53" using Cons.prems(1) [of e] e by auto
  have rest: "\<And>e. e \<in> set es \<Longrightarrow> \<exists>m::nat. snd e = Finite (real m) \<and> m \<le> 2 ^ 53"
    using Cons.prems(1) by simp
  have cmp: "x \<le> Finite (real n) \<longleftrightarrow> m \<le> n" by (simp add: m le_finite)
  show ?case
  proof (cases "m \<le> n")
    case True
    have "\<bar>int n - int m\<bar> \<le> 2 ^ 53" using True Cons.prems(2) by simp
    from minus_whole [OF this]
    have d: "Finite (real n) - Finite (real m) = Finite (real (n - m))"
      using True by (simp add: of_nat_diff)
    have "exact_walk es (Finite (real (n - m)))"
      using rest Cons.prems(2) by (intro Cons.IH) simp_all
    then show ?thesis using True d by (simp add: e m cmp [unfolded m] exact_difference_def of_nat_diff)
  next
    case False
    have "\<bar>int m - int n\<bar> \<le> 2 ^ 53" using False m(2) by simp
    from minus_whole [OF this]
    have d: "Finite (real m) - Finite (real n) = Finite (real m - real n)"
      by simp
    show ?thesis using False d by (simp add: e m cmp [unfolded m] exact_difference_def)
  qed
qed

lemma foldl_le_sum:
  fixes q :: "'a \<Rightarrow> nat"
  shows "x \<in> set ls \<Longrightarrow> q x \<le> sum_list (map q ls)"
  by (induction ls) auto

lemma whole_quantities_exact:
  assumes "\<And>rl. rl \<in> set productLines
             \<Longrightarrow> parseLineQuantity E (rl_quantity rl) = Finite (real (q rl))"
    and "sum_list (map q productLines) \<le> 2 ^ 53" and "n \<le> 2 ^ 53"
  shows "exact_total E productLines
       \<and> exact_walk (map (entry_of E) (js_sort cmp productLines)) (Finite (real n))"
proof
  have "totalReceived E productLines = Finite (real (0 + sum_list (map q productLines)))"
    unfolding totalReceived_def zero_js_number_def
    using whole_total [of productLines E q 0] assms(1,2) by simp
  moreover have "sum_list (map (\<lambda>rl. val (parseLineQuantity E (rl_quantity rl))) productLines)
        = real (sum_list (map q productLines))"
    using assms(1) by (induction productLines) simp_all
  ultimately show "exact_total E productLines"
    using assms(1) by (simp add: exact_total_def list_all_iff)
next
  have "\<exists>m::nat. snd e = Finite (real m) \<and> m \<le> 2 ^ 53"
    if h: "e \<in> set (map (entry_of E) (js_sort cmp productLines))" for e
  proof -
    have "set (js_sort cmp productLines) = set productLines"
      using mset_js_sort [of cmp productLines] by (rule mset_eq_setD)
    moreover obtain rl where "rl \<in> set (js_sort cmp productLines)" "e = entry_of E rl"
      using h by auto
    ultimately have rl: "rl \<in> set productLines" "e = entry_of E rl" by simp_all
    have "q rl \<le> sum_list (map q productLines)" using rl(1) by (rule foldl_le_sum)
    then show ?thesis using rl assms(1,2) by (auto simp: entry_of_def)
  qed
  then show "exact_walk (map (entry_of E) (js_sort cmp productLines)) (Finite (real n))"
    using assms(3) by (intro whole_walk) auto
qed

subsection \<open>receive_purchase_order\<close>

lemma lines_or_nil_upd:
  "lines_or_nil (m(k \<mapsto> v)) p = (if p = k then v else lines_or_nil m p)"
  by (simp add: lines_or_nil_def)






lemma get_or_0_upd [simp]: "get_or_0 (m(p \<mapsto> v)) p = or_0 v"
  by (simp add: get_or_0_def)





lemma receive_items_nil [simp]: "receive_items E lm plm allow rdate loc [] st = st"
  by (simp add: receive_items_def)








text \<open>
  The rounding of the doubles shows in the guard. With 0.3 ordered and 0.1 received the
  item 0.2 is rejected, the sum of the doubles 0.1 and 0.2 being the double above 0.3;
  and with \<open>2 ^ 53\<close> ordered and received the item 1 is accepted and written, the sum
  being rounded to \<open>2 ^ 53\<close>.
\<close>

lemma over_receive_guard_rounded:
  "receive_purchase_order example_env (Inr (Some (order_of (number (3 / 10)) (number (1 / 10)))))
     put_ok (receive_request [receive_widget (2 / 10)])
   = (ReceiveValidationFailed
        [WouldOverReceive ''Widget'' (number (1 / 10) + number (2 / 10)) (number (3 / 10))
           (number (1 / 10)) (number (3 / 10) - number (1 / 10))], [])
   \<and> number (1 / 10) + number (2 / 10) = Finite (1351079888211149 / 4503599627370496)
   \<and> number (3 / 10) = Finite (5404319552844595 / 18014398509481984)
   \<and> map (\<lambda>b. map rl_quantity (pb_receiveLines b))
       (snd (receive_purchase_order example_env
               (Inr (Some (order_of (Finite (2 ^ 53)) (Finite (2 ^ 53)))))
               put_ok (receive_request [receive_widget 1])))
     = [Some (QNumber (Finite (2 ^ 53))), decimal ''1.0000''] # []"
  by code_simp

subsection \<open>unreceive_purchase_order\<close>


lemma build_receiveLineMap_dom:
  "build_receiveLineMap ls m i \<noteq> None \<longleftrightarrow>
     m i \<noteq> None \<or> (\<exists>rl\<in>set ls. truthy (purchaseOrderReceiveLineId rl)
                         \<and> or_empty (purchaseOrderReceiveLineId rl) = i)"
  by (induction ls arbitrary: m) auto

lemma build_receiveLineMap_has:
  assumes "rl \<in> set ls" "truthy (purchaseOrderReceiveLineId rl)"
  shows "\<exists>y. build_receiveLineMap ls m (or_empty (purchaseOrderReceiveLineId rl)) = Some y"
proof -
  have "build_receiveLineMap ls m (or_empty (purchaseOrderReceiveLineId rl)) \<noteq> None"
    unfolding build_receiveLineMap_dom using assms by blast
  then show ?thesis by blast
qed

lemma unreceive_fetched:
  assumes "modes args = 1" "\<not> terminal_status (po_status po)" "po_receiveLines po = Some (rl # rls)"
  shows "unreceive_purchase_order E (Inr (Some po)) put args =
     (let M = build_receiveLineMap (rl # rls) Map.empty;
          names = build_productNameMap (case po_lines po of Some ls \<Rightarrow> ls | None \<Rightarrow> []) Map.empty;
          st = unreceive_select E args (rl # rls) M names
      in if ua_unreceiveAll args \<noteq> Some True \<and> unreceive_errors st \<noteq> []
         then (UnreceiveValidationFailed (unreceive_errors st), [])
         else unreceive_finish E put args po (rl # rls) M names st)"
  using assms
  by (simp add: unreceive_purchase_order_def Let_def del: build_receiveLineMap.simps)

lemma map_id_build_removed:
  "build_removed E M names ids = Inr removed \<Longrightarrow> map rm_receiveLineId removed = ids"
  by (induction ids arbitrary: removed) (auto split: option.splits sum.splits)

lemma map_id_build_modified:
  "build_modified M names mods = Inr modified \<Longrightarrow> map md_receiveLineId modified = map pm_id mods"
  by (induction mods arbitrary: modified) (auto split: option.splits sum.splits)

lemma truthy_the: "truthy x \<Longrightarrow> the x = or_empty x"
  by (cases x) (simp_all add: or_empty_def)

lemma build_removed_total:
  "\<forall>i\<in>set ids. M i \<noteq> None \<Longrightarrow> \<exists>removed. build_removed E M names ids = Inr removed"
  by (induction ids) auto

lemma build_modified_total:
  "\<forall>m\<in>set mods. M (pm_id m) \<noteq> None \<Longrightarrow> \<exists>modified. build_modified M names mods = Inr modified"
  by (induction mods) auto

lemma known_set_add:
  "known M st \<Longrightarrow> M i \<noteq> None \<Longrightarrow> known M (st\<lparr>removeSet := set_add i (removeSet st)\<rparr>)"
  by (auto simp: known_def set_add_def)

lemma lifo_walk_known:
  "\<forall>rl\<in>set ls. M (the (purchaseOrderReceiveLineId rl)) \<noteq> None \<Longrightarrow> known M st
     \<Longrightarrow> known M (lifo_walk E ls r st)"
proof (induction ls arbitrary: r st)
  case Nil
  then show ?case by simp
next
  case (Cons rl ls)
  have m: "M (the (purchaseOrderReceiveLineId rl)) \<noteq> None" using Cons.prems(1) by simp
  have rest: "\<forall>rl\<in>set ls. M (the (purchaseOrderReceiveLineId rl)) \<noteq> None"
    using Cons.prems(1) by simp
  have k1: "known M (st\<lparr>removeSet := set_add (the (purchaseOrderReceiveLineId rl)) (removeSet st)\<rparr>)"
    using Cons.prems(2) m by (rule known_set_add)
  have k2: "known M (st\<lparr>partialMods := partialMods st @
                      [\<lparr>pm_id = the (purchaseOrderReceiveLineId rl), pm_newQty = a, pm_oldQty = b\<rparr>]\<rparr>)"
    for a b using Cons.prems(2) m by (auto simp: known_def)
  show ?case
    using Cons.IH [OF rest k1] Cons.IH [OF rest k2] k2 Cons.prems(2)
    by (simp add: Let_def)
qed

lemma unreceive_item_step_known:
  assumes "known (build_receiveLineMap existing Map.empty) st"
  shows "known (build_receiveLineMap existing Map.empty)
           (unreceive_item_step E existing names st item)"
proof -
  let ?M = "build_receiveLineMap existing Map.empty"
  let ?pl = "productLines_of existing (ui_productId item)"
  have "\<forall>rl\<in>set ?pl. ?M (the (purchaseOrderReceiveLineId rl)) \<noteq> None"
    by (auto simp: productLines_of_def truthy_the build_receiveLineMap_has)
  moreover have "set (js_sort lifo_compare ?pl) = set ?pl"
    using mset_js_sort [of lifo_compare ?pl] by (rule mset_eq_setD)
  ultimately have "\<forall>rl\<in>set (js_sort lifo_compare ?pl). ?M (the (purchaseOrderReceiveLineId rl)) \<noteq> None"
    by simp
  then have "known ?M (lifo_walk E (js_sort lifo_compare ?pl) (ui_quantity item) st)"
    using assms by (rule lifo_walk_known)
  moreover have "known ?M (st\<lparr>unreceive_errors := es\<rparr>)" for es
    using assms by (simp add: known_def)
  ultimately show ?thesis by (simp add: unreceive_item_step_def Let_def)
qed

lemma foldl_known:
  assumes "\<And>st x. x \<in> set xs \<Longrightarrow> known M st \<Longrightarrow> known M (f st x)"
  shows "known M st \<Longrightarrow> known M (foldl f st xs)"
  using assms by (induction xs arbitrary: st) auto

lemma unreceive_select_known:
  "known (build_receiveLineMap existing Map.empty)
     (unreceive_select E args existing (build_receiveLineMap existing Map.empty) names)"
proof -
  let ?M = "build_receiveLineMap existing Map.empty"
  let ?st0 = "\<lparr>removeSet = [], partialMods = [], unreceive_errors = []\<rparr>"
  have k0: "known ?M ?st0" by (simp add: known_def)
  have all: "known ?M (foldl (\<lambda>st rl. if truthy (purchaseOrderReceiveLineId rl)
                           then st\<lparr>removeSet :=
                                  set_add (or_empty (purchaseOrderReceiveLineId rl)) (removeSet st)\<rparr>
                           else st) ?st0 existing)"
    by (rule foldl_known [OF _ k0]) (auto intro!: known_set_add simp: build_receiveLineMap_has)
  have ids: "known ?M (foldl (\<lambda>st i. if ?M i = None
                              then st\<lparr>unreceive_errors := unreceive_errors st @ [ReceiveLineIdNotFound i]\<rparr>
                              else st\<lparr>removeSet := set_add i (removeSet st)\<rparr>) ?st0 is)" for "is"
  proof (rule foldl_known [OF _ k0])
    fix st i assume "known ?M st"
    then show "known ?M (if ?M i = None
                 then st\<lparr>unreceive_errors := unreceive_errors st @ [ReceiveLineIdNotFound i]\<rparr>
                 else st\<lparr>removeSet := set_add i (removeSet st)\<rparr>)"
      using known_set_add [of ?M st i] by (cases "?M i") (simp_all add: known_def)
  qed
  have items: "known ?M (foldl (unreceive_item_step E existing names) ?st0 its)" for its
    by (rule foldl_known [OF _ k0]) (rule unreceive_item_step_known)
  show ?thesis
    using all ids items k0
    by (simp add: unreceive_select_def Let_def split: option.splits)
qed






text \<open>
  Claim C6. An unreceive call with \<open>dryRun\<close> set issues no write in any mode and never
  answers the summary of a write; when the call passes validation (one mode, an order that
  is not cancelled or closed with a ledger that is not empty, no message) it answers the
  preview of the lines it would remove and modify.
\<close>

theorem dry_run_issues_no_write:
  assumes "ua_dryRun args = Some True"
  shows "snd (unreceive_purchase_order E got put args) = []
       \<and> (\<forall>s. fst (unreceive_purchase_order E got put args) \<noteq> UnreceiveSummary s)
       \<and> (modes args = 1 \<and> \<not> terminal_status (po_status po)
            \<and> po_receiveLines po = Some (rl # rls)
            \<and> unreceive_errors (unreceive_select E args (rl # rls)
                  (build_receiveLineMap (rl # rls) Map.empty)
                  (build_productNameMap (case po_lines po of Some ls \<Rightarrow> ls | None \<Rightarrow> [])
                     Map.empty)) = []
          \<longrightarrow> (let st = unreceive_select E args (rl # rls)
                        (build_receiveLineMap (rl # rls) Map.empty)
                        (build_productNameMap (case po_lines po of Some ls \<Rightarrow> ls | None \<Rightarrow> [])
                           Map.empty)
               in \<exists>removed modified.
                 fst (unreceive_purchase_order E (Inr (Some po)) put args) =
                   DryRunPreview
                     \<lparr>dp_purchaseOrderId = ua_purchaseOrderId args,
                      dp_orderNumber = po_orderNumber po,
                      dp_currentReceiveLines = length (rl # rls),
                      dp_wouldRemove = removed,
                      dp_wouldModify = modified,
                      dp_remainingReceiveLines =
                        int (length (rl # rls)) - int (length (removeSet st))\<rparr>
                 \<and> map rm_receiveLineId removed = removeSet st
                 \<and> map md_receiveLineId modified = map pm_id (partialMods st)))"
proof (intro conjI impI)
  show "snd (unreceive_purchase_order E got put args) = []"
    using assms
    by (auto simp: unreceive_purchase_order_def unreceive_finish_def Let_def
        split: sum.splits option.splits if_splits)
  show "\<forall>s. fst (unreceive_purchase_order E got put args) \<noteq> UnreceiveSummary s"
    using assms
    by (auto simp: unreceive_purchase_order_def unreceive_finish_def Let_def
        split: sum.splits option.splits if_splits)
next
  let ?M = "build_receiveLineMap (rl # rls) Map.empty"
  let ?names = "build_productNameMap (case po_lines po of Some ls \<Rightarrow> ls | None \<Rightarrow> []) Map.empty"
  let ?st = "unreceive_select E args (rl # rls) ?M ?names"
  assume h: "modes args = 1 \<and> \<not> terminal_status (po_status po)
            \<and> po_receiveLines po = Some (rl # rls)
            \<and> unreceive_errors ?st = []"
  have k: "known ?M ?st" by (rule unreceive_select_known)
  obtain removed where r: "build_removed E ?M ?names (removeSet ?st) = Inr removed"
    using build_removed_total [of "removeSet ?st" ?M E ?names] k by (auto simp: known_def)
  obtain modified where m: "build_modified ?M ?names (partialMods ?st) = Inr modified"
    using build_modified_total [of "partialMods ?st" ?M ?names] k by (auto simp: known_def)
  have "unreceive_purchase_order E (Inr (Some po)) put args =
          unreceive_finish E put args po (rl # rls) ?M ?names ?st"
    using h unreceive_fetched [of args po rl rls E put] by (simp add: Let_def)
  then have "fst (unreceive_purchase_order E (Inr (Some po)) put args) =
                   DryRunPreview
                     \<lparr>dp_purchaseOrderId = ua_purchaseOrderId args,
                      dp_orderNumber = po_orderNumber po,
                      dp_currentReceiveLines = length (rl # rls),
                      dp_wouldRemove = removed,
                      dp_wouldModify = modified,
                      dp_remainingReceiveLines =
                        int (length (rl # rls)) - int (length (removeSet ?st))\<rparr>"
    using assms r m by (simp add: unreceive_finish_def)
  then show "let st = ?st
               in \<exists>removed modified.
                 fst (unreceive_purchase_order E (Inr (Some po)) put args) =
                   DryRunPreview
                     \<lparr>dp_purchaseOrderId = ua_purchaseOrderId args,
                      dp_orderNumber = po_orderNumber po,
                      dp_currentReceiveLines = length (rl # rls),
                      dp_wouldRemove = removed,
                      dp_wouldModify = modified,
                      dp_remainingReceiveLines =
                        int (length (rl # rls)) - int (length (removeSet st))\<rparr>
                 \<and> map rm_receiveLineId removed = removeSet st
                 \<and> map md_receiveLineId modified = map pm_id (partialMods st)"
    unfolding Let_def
    using map_id_build_removed [OF r] map_id_build_modified [OF m] by blast
qed

text \<open>The theorem on a dry run of the LIFO request 4 of the example.\<close>

theorem dry_run_issues_no_write_witness:
  "ua_dryRun (unreceive_request [widget 4] (Some True)) = Some True
   \<and> modes (unreceive_request [widget 4] (Some True)) = 1
   \<and> \<not> terminal_status (po_status (example_order [entry_t1, entry_t2]))
   \<and> po_receiveLines (example_order [entry_t1, entry_t2]) = Some (entry_t1 # [entry_t2])
   \<and> unreceive_errors (unreceive_select example_env (unreceive_request [widget 4] (Some True))
         (entry_t1 # [entry_t2])
         (build_receiveLineMap (entry_t1 # [entry_t2]) Map.empty)
         (build_productNameMap
            (case po_lines (example_order [entry_t1, entry_t2]) of Some ls \<Rightarrow> ls | None \<Rightarrow> [])
            Map.empty)) = []
   \<and> snd (unreceive_purchase_order example_env
        (Inr (Some (example_order [entry_t1, entry_t2]))) put_ok
        (unreceive_request [widget 4] (Some True))) = []
   \<and> (\<exists>preview. fst (unreceive_purchase_order example_env
        (Inr (Some (example_order [entry_t1, entry_t2]))) put_ok
        (unreceive_request [widget 4] (Some True))) = DryRunPreview preview)"
proof -
  have h: "ua_dryRun (unreceive_request [widget 4] (Some True)) = Some True" by code_simp
  have a: "modes (unreceive_request [widget 4] (Some True)) = 1
   \<and> \<not> terminal_status (po_status (example_order [entry_t1, entry_t2]))
   \<and> po_receiveLines (example_order [entry_t1, entry_t2]) = Some (entry_t1 # [entry_t2])
   \<and> unreceive_errors (unreceive_select example_env (unreceive_request [widget 4] (Some True))
         (entry_t1 # [entry_t2])
         (build_receiveLineMap (entry_t1 # [entry_t2]) Map.empty)
         (build_productNameMap
            (case po_lines (example_order [entry_t1, entry_t2]) of Some ls \<Rightarrow> ls | None \<Rightarrow> [])
            Map.empty)) = []"
    by code_simp
  from dry_run_issues_no_write [OF h, of example_env
      "Inr (Some (example_order [entry_t1, entry_t2]))" put_ok
      "example_order [entry_t1, entry_t2]" entry_t1 "[entry_t2]"] h a
  show ?thesis unfolding Let_def by blast
qed

text \<open>
  Claim C10, as amended. An unreceive call whose \<open>receiveLineIds\<close> is the empty array
  counts it as a mode: the call is never rejected for having no mode, and with \<open>items\<close> or
  \<open>unreceiveAll\<close> it is rejected for having several. Alone, on an order that is not
  cancelled or closed with a ledger that is not empty, it collects no message and marks
  nothing; when \<open>dryRun\<close> is not set it issues one write whose ledger is the existing
  ledger, every line with its writable fields and no others, and reports nothing removed
  and nothing modified. Alone on an order that is cancelled or closed, or whose ledger is
  empty, it is answered by an error and issues no write.
\<close>

theorem empty_receiveLineIds_is_a_mode:
  assumes "ua_receiveLineIds args = Some []"
  shows "modes args \<ge> 1
       \<and> unreceive_purchase_order E got put args
           \<noteq> (UnreceiveError ''Provide exactly one of: receiveLineIds, items, or unreceiveAll'', [])
       \<and> (ua_items args \<noteq> None \<or> ua_unreceiveAll args = Some True \<longrightarrow>
            unreceive_purchase_order E got put args =
              (UnreceiveError (''Use only one of: receiveLineIds, items, or unreceiveAll ''
                               @ em_dash @ '' they are mutually exclusive''), []))
       \<and> (ua_items args = None \<and> ua_unreceiveAll args \<noteq> Some True
           \<and> \<not> terminal_status (po_status po) \<and> po_receiveLines po = Some (rl # rls) \<longrightarrow>
            (let st = unreceive_select E args (rl # rls)
                        (build_receiveLineMap (rl # rls) Map.empty)
                        (build_productNameMap (case po_lines po of Some ls \<Rightarrow> ls | None \<Rightarrow> [])
                           Map.empty);
                 body = \<lparr>pb_purchaseOrderId = po_purchaseOrderId po, pb_vendorId = po_vendorId po,
                         pb_receiveLines = map writable_fields (rl # rls),
                         pb_unstockLines =
                           Some (case po_unstockLines po of Some u \<Rightarrow> u | None \<Rightarrow> []),
                         pb_timestamp = po_timestamp po\<rparr>
             in unreceive_errors st = [] \<and> removeSet st = [] \<and> partialMods st = []
                \<and> (ua_dryRun args \<noteq> Some True \<longrightarrow>
                     snd (unreceive_purchase_order E (Inr (Some po)) put args) = [body]
                     \<and> (\<forall>result. put body = Inr result \<longrightarrow>
                          (\<exists>s. fst (unreceive_purchase_order E (Inr (Some po)) put args)
                                 = UnreceiveSummary s
                               \<and> us_removed s = [] \<and> us_modified s = [])))))
       \<and> (ua_items args = None \<and> ua_unreceiveAll args \<noteq> Some True
           \<and> terminal_status (po_status po) \<longrightarrow>
            unreceive_purchase_order E (Inr (Some po)) put args
              = (CannotUnreceiveOnStatus (po_status po), []))
       \<and> (ua_items args = None \<and> ua_unreceiveAll args \<noteq> Some True
           \<and> \<not> terminal_status (po_status po)
           \<and> (po_receiveLines po = None \<or> po_receiveLines po = Some []) \<longrightarrow>
            unreceive_purchase_order E (Inr (Some po)) put args
              = (UnreceiveError ''PO has no receive lines to unreceive'', []))"
proof (intro conjI impI)
  show "modes args \<ge> 1" using assms by (simp add: modes_def)
next
  have "modes args \<noteq> 0" using assms by (simp add: modes_def)
  then show "unreceive_purchase_order E got put args
           \<noteq> (UnreceiveError ''Provide exactly one of: receiveLineIds, items, or unreceiveAll'', [])"
    by (auto simp: unreceive_purchase_order_def unreceive_finish_def Let_def
        split: sum.splits option.splits if_splits)
next
  assume "ua_items args \<noteq> None \<or> ua_unreceiveAll args = Some True"
  then have "modes args > 1" using assms by (auto simp: modes_def)
  then show "unreceive_purchase_order E got put args =
              (UnreceiveError (''Use only one of: receiveLineIds, items, or unreceiveAll ''
                               @ em_dash @ '' they are mutually exclusive''), [])"
    by (simp add: unreceive_purchase_order_def)
next
  assume c: "ua_items args = None \<and> ua_unreceiveAll args \<noteq> Some True
           \<and> \<not> terminal_status (po_status po) \<and> po_receiveLines po = Some (rl # rls)"
  have m: "modes args = 1" using assms c by (simp add: modes_def)
  have sel: "unreceive_select E args (rl # rls)
                        (build_receiveLineMap (rl # rls) Map.empty)
                        (build_productNameMap (case po_lines po of Some ls \<Rightarrow> ls | None \<Rightarrow> [])
                           Map.empty) = \<lparr>removeSet = [], partialMods = [], unreceive_errors = []\<rparr>"
    using assms c by (simp add: unreceive_select_def Let_def del: build_receiveLineMap.simps)
  have w: "stripReceiveLineToWritable = writable_fields"
    by (rule ext) (simp add: stripReceiveLineToWritable_def writable_fields_def)
  show "let st = unreceive_select E args (rl # rls)
                        (build_receiveLineMap (rl # rls) Map.empty)
                        (build_productNameMap (case po_lines po of Some ls \<Rightarrow> ls | None \<Rightarrow> [])
                           Map.empty);
                 body = \<lparr>pb_purchaseOrderId = po_purchaseOrderId po, pb_vendorId = po_vendorId po,
                         pb_receiveLines = map writable_fields (rl # rls),
                         pb_unstockLines =
                           Some (case po_unstockLines po of Some u \<Rightarrow> u | None \<Rightarrow> []),
                         pb_timestamp = po_timestamp po\<rparr>
             in unreceive_errors st = [] \<and> removeSet st = [] \<and> partialMods st = []
                \<and> (ua_dryRun args \<noteq> Some True \<longrightarrow>
                     snd (unreceive_purchase_order E (Inr (Some po)) put args) = [body]
                     \<and> (\<forall>result. put body = Inr result \<longrightarrow>
                          (\<exists>s. fst (unreceive_purchase_order E (Inr (Some po)) put args)
                                 = UnreceiveSummary s
                               \<and> us_removed s = [] \<and> us_modified s = [])))"
    using c m
    by (auto simp: Let_def sel unreceive_purchase_order_def unreceive_finish_def
          remainingLines_of_def w
        simp del: build_receiveLineMap.simps split: sum.splits)
next
  assume c: "ua_items args = None \<and> ua_unreceiveAll args \<noteq> Some True
           \<and> terminal_status (po_status po)"
  have m: "modes args = 1" using assms c by (simp add: modes_def)
  show "unreceive_purchase_order E (Inr (Some po)) put args
              = (CannotUnreceiveOnStatus (po_status po), [])"
    using c m by (simp add: unreceive_purchase_order_def)
next
  assume c: "ua_items args = None \<and> ua_unreceiveAll args \<noteq> Some True
           \<and> \<not> terminal_status (po_status po)
           \<and> (po_receiveLines po = None \<or> po_receiveLines po = Some [])"
  have m: "modes args = 1" using assms c by (simp add: modes_def)
  show "unreceive_purchase_order E (Inr (Some po)) put args
              = (UnreceiveError ''PO has no receive lines to unreceive'', [])"
    using c m by (auto simp: unreceive_purchase_order_def)
qed

text \<open>
  The theorem on a ledger of two entries, the first of which carries a description that is
  not written back.
\<close>

theorem empty_receiveLineIds_is_a_mode_witness:
  "ua_receiveLineIds (unreceive_ids []) = Some []
   \<and> ua_items (unreceive_ids []) = None \<and> ua_unreceiveAll (unreceive_ids []) \<noteq> Some True
   \<and> \<not> terminal_status (po_status (example_order [received_8, entry_t2]))
   \<and> po_receiveLines (example_order [received_8, entry_t2]) = Some (received_8 # [entry_t2])
   \<and> ua_dryRun (unreceive_ids []) \<noteq> Some True
   \<and> rl_description received_8 = Some ''Widget''
   \<and> modes (unreceive_ids []) \<ge> 1
   \<and> snd (unreceive_purchase_order example_env
        (Inr (Some (example_order [received_8, entry_t2]))) put_ok (unreceive_ids []))
      = [\<lparr>pb_purchaseOrderId = Some ''po-1'', pb_vendorId = Some ''vendor-1'',
          pb_receiveLines = [received_8\<lparr>rl_description := None\<rparr>, entry_t2],
          pb_unstockLines = Some [], pb_timestamp = Some ''0007''\<rparr>]"
proof -
  have h: "ua_receiveLineIds (unreceive_ids []) = Some []" by code_simp
  have a: "ua_items (unreceive_ids []) = None \<and> ua_unreceiveAll (unreceive_ids []) \<noteq> Some True
   \<and> \<not> terminal_status (po_status (example_order [received_8, entry_t2]))
   \<and> po_receiveLines (example_order [received_8, entry_t2]) = Some (received_8 # [entry_t2])"
    by code_simp
  have d: "ua_dryRun (unreceive_ids []) \<noteq> Some True" by code_simp
  have e: "rl_description received_8 = Some ''Widget''" by code_simp
  have b: "\<lparr>pb_purchaseOrderId = po_purchaseOrderId (example_order [received_8, entry_t2]),
            pb_vendorId = po_vendorId (example_order [received_8, entry_t2]),
            pb_receiveLines = map writable_fields (received_8 # [entry_t2]),
            pb_unstockLines =
              Some (case po_unstockLines (example_order [received_8, entry_t2]) of
                      Some u \<Rightarrow> u | None \<Rightarrow> []),
            pb_timestamp = po_timestamp (example_order [received_8, entry_t2])\<rparr>
         = \<lparr>pb_purchaseOrderId = Some ''po-1'', pb_vendorId = Some ''vendor-1'',
          pb_receiveLines = [received_8\<lparr>rl_description := None\<rparr>, entry_t2],
          pb_unstockLines = Some [], pb_timestamp = Some ''0007''\<rparr>"
    by code_simp
  from empty_receiveLineIds_is_a_mode [OF h, of example_env _ put_ok
      "example_order [received_8, entry_t2]" received_8 "[entry_t2]"] h a d
  have "modes (unreceive_ids []) \<ge> 1
    \<and> snd (unreceive_purchase_order example_env
        (Inr (Some (example_order [received_8, entry_t2]))) put_ok (unreceive_ids []))
      = [\<lparr>pb_purchaseOrderId = po_purchaseOrderId (example_order [received_8, entry_t2]),
            pb_vendorId = po_vendorId (example_order [received_8, entry_t2]),
            pb_receiveLines = map writable_fields (received_8 # [entry_t2]),
            pb_unstockLines =
              Some (case po_unstockLines (example_order [received_8, entry_t2]) of
                      Some u \<Rightarrow> u | None \<Rightarrow> []),
            pb_timestamp = po_timestamp (example_order [received_8, entry_t2])\<rparr>]"
    unfolding Let_def by blast
  with h a d e b show ?thesis by (simp only:) blast
qed

text \<open>
  Claim C10 as stated fails. On an order whose ledger is empty, and on a cancelled order,
  the call with the empty array is answered by an error and issues no write.
\<close>

theorem empty_ledger_counterexample:
  "ua_receiveLineIds (unreceive_ids []) = Some []
   \<and> ua_dryRun (unreceive_ids []) \<noteq> Some True
   \<and> unreceive_purchase_order example_env (Inr (Some (example_order []))) put_ok (unreceive_ids [])
       = (UnreceiveError ''PO has no receive lines to unreceive'', [])
   \<and> unreceive_purchase_order example_env
        (Inr (Some ((example_order [entry_t1])\<lparr>po_status := Some Cancelled\<rparr>))) put_ok
        (unreceive_ids [])
       = (CannotUnreceiveOnStatus (Some Cancelled), [])"
  by code_simp

end
